theory Spec2Isabelle
  imports Complex_Main
begin

section \<open>Values, errors and the parameter container\<close>

text \<open>
  A C++ \<^verbatim>\<open>double\<close> is represented by the exact value its text denotes (a rational),
  or an infinity, or a NaN. Binary rounding and signed zeros are not part of the model; the
  range errors of \<^verbatim>\<open>stod\<close>, overflow and underflow, are.
\<close>

datatype double = Finite rat | Infinite bool | NaN

text \<open>
  \<^verbatim>\<open>FOUR_C_THROW(fmt, args...)\<close> is kept as the format string of the source together
  with its arguments, in the order of the call. The standard-library exceptions that the
  code can meet are separate constructors: \<^verbatim>\<open>std::invalid_argument\<close> is the only one
  the source catches.
\<close>

datatype arg = Str string | Dec int | Flt double

datatype error =
    Four_C_Throw string "arg list"
  | Std_invalid_argument string
  | Std_out_of_range string
  | Std_length_error string
  | Teuchos_RangeError nat
  | Container_get_failed string

datatype entry =
    VInt int
  | VReal double
  | VString string
  | VBool bool
  | VIntVector "int list"
  | VRealVector "double list"

text \<open>
  Modelled from the spec: \<^verbatim>\<open>Core::IO::InputParameterContainer\<close> (declared in
  \<^verbatim>\<open>4C_io_input_parameter_container.hpp\<close>, which is not part of the sources at hand) is
  an associative store from field name to a typed value; \<^verbatim>\<open>add\<close> sets the value of a
  name and \<^verbatim>\<open>get<int>\<close> reads an integer back, failing when the name is absent or holds
  another type.
\<close>

type_synonym InputParameterContainer = "string \<rightharpoonup> entry"

definition add :: "InputParameterContainer \<Rightarrow> string \<Rightarrow> entry \<Rightarrow> InputParameterContainer" where
  "add container name v = container(name \<mapsto> v)"

definition get_int :: "InputParameterContainer \<Rightarrow> string \<Rightarrow> error + int" where
  "get_int container name =
     (case container name of
        Some (VInt i) \<Rightarrow> Inr i
      | _ \<Rightarrow> Inl (Container_get_failed name))"

section \<open>Strings of the standard library\<close>

definition isspace :: "char \<Rightarrow> bool" where
  "isspace c \<longleftrightarrow> c \<in> set [CHR '' '', CHR 0x09, CHR 0x0A, CHR 0x0B, CHR 0x0C, CHR 0x0D]"

definition isdigit :: "char \<Rightarrow> bool" where
  "isdigit c \<longleftrightarrow> c \<in> set ''0123456789''"

definition isxdigit :: "char \<Rightarrow> bool" where
  "isxdigit c \<longleftrightarrow> c \<in> set ''0123456789abcdefABCDEF''"

definition is_nchar :: "char \<Rightarrow> bool" where
  "is_nchar c \<longleftrightarrow>
     c \<in> set ''0123456789abcdefghijklmnopqrstuvwxyzABCDEFGHIJKLMNOPQRSTUVWXYZ_''"

definition tolower :: "char \<Rightarrow> char" where
  "tolower c =
     (if c \<in> set ''ABCDEFGHIJKLMNOPQRSTUVWXYZ'' then char_of (of_char c + (32::nat)) else c)"

definition xdigit_val :: "char \<Rightarrow> nat" where
  "xdigit_val c =
     (if isdigit c then of_char c - 48
      else if c \<in> set ''abcdef'' then of_char c - 87
      else of_char c - 55)"

definition digits_val :: "int \<Rightarrow> string \<Rightarrow> int" where
  "digits_val base ds = foldl (\<lambda>a c. a * base + int (xdigit_val c)) 0 ds"

text \<open>
  \<^verbatim>\<open>std::string::find(pat)\<close>: the index of the first occurrence of \<open>pat\<close>;
  \<open>None\<close> stands for \<^verbatim>\<open>std::string::npos\<close>.
\<close>

primrec str_find :: "string \<Rightarrow> string \<Rightarrow> nat option" where
  "str_find [] pat = (if pat = [] then Some 0 else None)"
| "str_find (c # s) pat =
     (if take (length pat) (c # s) = pat then Some 0
      else map_option Suc (str_find s pat))"

text \<open>
  \<^verbatim>\<open>std::string::erase(index, count)\<close> throws \<^verbatim>\<open>std::out_of_range\<close> when
  \<open>index\<close> is beyond the size and removes at most \<open>count\<close> characters otherwise.
\<close>

definition erase :: "string \<Rightarrow> nat \<Rightarrow> nat \<Rightarrow> error + string" where
  "erase s index count =
     (if length s < index then Inl (Std_out_of_range ''basic_string::erase'')
      else Inr (take index s @ drop (index + count) s))"

text \<open>
  \<^verbatim>\<open>size_t\<close> is unsigned with 64 bits. The cast of a stream position (a signed 64-bit
  value, \<open>-1\<close> on failure) wraps a negative value around, and so does a subtraction whose
  result would be negative.
\<close>

definition size_t_of :: "int \<Rightarrow> nat" where
  "size_t_of i = (if i < 0 then nat (i + 2 ^ 64) else nat i)"

definition size_t_minus :: "nat \<Rightarrow> nat \<Rightarrow> nat" where
  "size_t_minus a b = (if b \<le> a then a - b else a + 2 ^ 64 - b)"

section \<open>The line cursor: a string stream\<close>

text \<open>
  \<^verbatim>\<open>std::stringstream\<close>: the text of its buffer, the get position in that text, and the
  state bits \<^verbatim>\<open>eofbit\<close> and \<^verbatim>\<open>failbit\<close> (\<^verbatim>\<open>badbit\<close> is never set by a string
  buffer).
\<close>

record stringstream =
  buf :: string
  gpos :: nat
  eofbit :: bool
  failbit :: bool

definition stringstream_of :: "string \<Rightarrow> stringstream" where
  "stringstream_of s = \<lparr>buf = s, gpos = 0, eofbit = False, failbit = False\<rparr>"

definition good :: "stringstream \<Rightarrow> bool" where
  "good c \<longleftrightarrow> \<not> eofbit c \<and> \<not> failbit c"

definition str :: "stringstream \<Rightarrow> string" where
  "str c = buf c"

text \<open>\<^verbatim>\<open>str(s)\<close> replaces the text and rewinds the get position; the state bits stay.\<close>

definition set_str :: "string \<Rightarrow> stringstream \<Rightarrow> stringstream" where
  "set_str s c = c\<lparr>buf := s, gpos := 0\<rparr>"

text \<open>
  \<^verbatim>\<open>tellg()\<close> builds a sentry first: on a stream that is not good the sentry sets
  \<^verbatim>\<open>failbit\<close>, and the call returns \<open>-1\<close>.
\<close>

definition tellg :: "stringstream \<Rightarrow> int \<times> stringstream" where
  "tellg c = (if good c then (int (gpos c), c) else (- 1, c\<lparr>failbit := True\<rparr>))"

text \<open>
  \<^verbatim>\<open>seekg(pos)\<close> and \<^verbatim>\<open>seekg(0, end)\<close> clear \<^verbatim>\<open>eofbit\<close> first and do nothing
  more on a failed stream; a position outside the text sets \<^verbatim>\<open>failbit\<close>.
\<close>

definition seekg :: "int \<Rightarrow> stringstream \<Rightarrow> stringstream" where
  "seekg pos c =
     (let c1 = c\<lparr>eofbit := False\<rparr> in
      if failbit c1 then c1
      else if 0 \<le> pos \<and> pos \<le> int (length (buf c1)) then c1\<lparr>gpos := nat pos\<rparr>
      else c1\<lparr>failbit := True\<rparr>)"

definition seekg_end :: "stringstream \<Rightarrow> stringstream" where
  "seekg_end c =
     (let c1 = c\<lparr>eofbit := False\<rparr> in
      if failbit c1 then c1 else c1\<lparr>gpos := length (buf c1)\<rparr>)"

text \<open>
  \<^verbatim>\<open>stream >> s\<close> for a string \<open>s\<close>: on a stream that is not good the sentry fails, sets
  \<^verbatim>\<open>failbit\<close> and leaves \<open>s\<close> as it was. Otherwise whitespace is skipped; when the text
  ends there, \<^verbatim>\<open>eofbit\<close> and \<^verbatim>\<open>failbit\<close> are set and \<open>s\<close> is left as it was.
  Otherwise \<open>s\<close> becomes the characters up to the next whitespace, and \<^verbatim>\<open>eofbit\<close> is
  set when the text ends before one is met.
\<close>

definition extract_string :: "stringstream \<Rightarrow> string \<Rightarrow> string \<times> stringstream" where
  "extract_string c s =
     (if \<not> good c then (s, c\<lparr>failbit := True\<rparr>)
      else
        let rest = drop (gpos c) (buf c);
            ws = takeWhile isspace rest;
            rest' = dropWhile isspace rest
        in if rest' = [] then (s, c\<lparr>gpos := length (buf c), eofbit := True, failbit := True\<rparr>)
           else
             let tok = takeWhile (\<lambda>ch. \<not> isspace ch) rest';
                 after = dropWhile (\<lambda>ch. \<not> isspace ch) rest'
             in (tok, c\<lparr>gpos := gpos c + length ws + length tok, eofbit := (after = [])\<rparr>))"

section \<open>Numeric conversion\<close>

text \<open>
  \<^verbatim>\<open>std::stoi(s, &pos)\<close>: leading whitespace, an optional sign, decimal digits. No digit
  is \<^verbatim>\<open>std::invalid_argument\<close>, a value outside 32 bits is \<^verbatim>\<open>std::out_of_range\<close>;
  \<open>pos\<close> is the index of the first character not converted.
\<close>

definition sign_length :: "string \<Rightarrow> nat" where
  "sign_length s = (case s of c # _ \<Rightarrow> if c = CHR ''-'' \<or> c = CHR ''+'' then 1 else 0 | [] \<Rightarrow> 0)"

definition negative :: "string \<Rightarrow> bool" where
  "negative s = (case s of c # _ \<Rightarrow> c = CHR ''-'' | [] \<Rightarrow> False)"

definition stoi :: "string \<Rightarrow> error + (int \<times> nat)" where
  "stoi s =
     (let ws = takeWhile isspace s;
          s1 = dropWhile isspace s;
          s2 = drop (sign_length s1) s1;
          ds = takeWhile isdigit s2;
          v = (if negative s1 then - digits_val 10 ds else digits_val 10 ds)
      in if ds = [] then Inl (Std_invalid_argument ''stoi'')
         else if v < - (2 ^ 31) \<or> 2 ^ 31 - 1 < v then Inl (Std_out_of_range ''stoi'')
         else Inr (v, length ws + sign_length s1 + length ds))"

text \<open>
  \<^verbatim>\<open>std::stod(s, &pos)\<close> reads what \<^verbatim>\<open>strtod\<close> reads: after whitespace and an optional
  sign, the longest of a decimal number with optional fraction and exponent, a hexadecimal
  number with optional fraction and binary exponent, \<^verbatim>\<open>inf\<close> or \<^verbatim>\<open>infinity\<close>, and
  \<^verbatim>\<open>nan\<close> with an optional parenthesised sequence, the words in any case.
\<close>

definition scale :: "rat \<Rightarrow> nat \<Rightarrow> int \<Rightarrow> rat" where
  "scale m b e = (if 0 \<le> e then m * of_nat b ^ nat e else m / of_nat b ^ nat (- e))"

text \<open>An exponent part: the marker, an optional sign and at least one digit; else nothing.\<close>

definition exponent_part :: "string \<Rightarrow> string \<Rightarrow> int \<times> nat" where
  "exponent_part markers s =
     (case s of
        [] \<Rightarrow> (0, 0)
      | c # t \<Rightarrow>
          if c \<in> set markers then
            let ds = takeWhile isdigit (drop (sign_length t) t);
                e = digits_val 10 ds
            in if ds = [] then (0, 0)
               else (if negative t then - e else e, 1 + sign_length t + length ds)
          else (0, 0))"

definition decimal_body :: "string \<Rightarrow> (rat \<times> nat) option" where
  "decimal_body s =
     (let d1 = takeWhile isdigit s;
          s1 = dropWhile isdigit s;
          dot = (case s1 of c # _ \<Rightarrow> c = CHR ''.'' | [] \<Rightarrow> False);
          d2 = (if dot then takeWhile isdigit (drop 1 s1) else []);
          n = length d1 + (if dot then 1 else 0) + length d2;
          ex = exponent_part ''eE'' (drop n s)
      in if d1 @ d2 = [] then None
         else Some (scale (of_int (digits_val 10 (d1 @ d2))) 10 (fst ex - int (length d2)),
                    n + snd ex))"

definition hex_body :: "string \<Rightarrow> (rat \<times> nat) option" where
  "hex_body s =
     (if map tolower (take 2 s) = ''0x'' then
        let t = drop 2 s;
            h1 = takeWhile isxdigit t;
            t1 = dropWhile isxdigit t;
            dot = (case t1 of c # _ \<Rightarrow> c = CHR ''.'' | [] \<Rightarrow> False);
            h2 = (if dot then takeWhile isxdigit (drop 1 t1) else []);
            n = 2 + length h1 + (if dot then 1 else 0) + length h2;
            ex = exponent_part ''pP'' (drop n s)
        in if h1 @ h2 = [] then None
           else Some (scale (of_int (digits_val 16 (h1 @ h2))) 2 (fst ex - 4 * int (length h2)),
                      n + snd ex)
      else None)"

definition nan_length :: "string \<Rightarrow> nat" where
  "nan_length s =
     (let t = drop 3 s;
          cs = takeWhile is_nchar (drop 1 t)
      in if take 1 t = ''('' \<and> take 1 (drop (1 + length cs) t) = '')''
         then 3 + 1 + length cs + 1 else 3)"

definition stod_body :: "string \<Rightarrow> (double \<times> nat) option" where
  "stod_body s =
     (if map tolower (take 8 s) = ''infinity'' then Some (Infinite False, 8)
      else if map tolower (take 3 s) = ''inf'' then Some (Infinite False, 3)
      else if map tolower (take 3 s) = ''nan'' then Some (NaN, nan_length s)
      else case hex_body s of
             Some (v, n) \<Rightarrow> Some (Finite v, n)
           | None \<Rightarrow> map_option (\<lambda>(v, n). (Finite v, n)) (decimal_body s))"

definition negate :: "double \<Rightarrow> double" where
  "negate d = (case d of Finite v \<Rightarrow> Finite (- v) | Infinite b \<Rightarrow> Infinite (\<not> b) | NaN \<Rightarrow> NaN)"

text \<open>
  \<^verbatim>\<open>std::stod\<close> throws \<^verbatim>\<open>std::out_of_range\<close> when \<^verbatim>\<open>strtod\<close> reports a range
  error. That is the case when the value rounds to an infinity (\<open>overflows\<close>: it is at
  least \<open>2^1024 - 2^970\<close>, halfway between the largest double and \<open>2^1024\<close>), and when it
  is tiny and inexact (\<open>underflows\<close>: it is not zero, rounds to less than the smallest
  normal double \<open>2^-1022\<close>, and is not a multiple of \<open>2^-1074\<close>, the spacing of the
  subnormal doubles).
\<close>

definition overflows :: "double \<Rightarrow> bool" where
  "overflows d = (case d of Finite v \<Rightarrow> 2 ^ 1024 - 2 ^ 970 \<le> \<bar>v\<bar> | _ \<Rightarrow> False)"

definition underflows :: "double \<Rightarrow> bool" where
  "underflows d =
     (case d of
        Finite v \<Rightarrow> v \<noteq> 0 \<and> \<bar>v\<bar> < 1 / 2 ^ 1022 - 1 / 2 ^ 1076 \<and>
                    of_int \<lfloor>v * 2 ^ 1074\<rfloor> \<noteq> v * 2 ^ 1074
      | _ \<Rightarrow> False)"

definition stod :: "string \<Rightarrow> error + (double \<times> nat)" where
  "stod s =
     (let ws = takeWhile isspace s;
          s1 = dropWhile isspace s;
          s2 = drop (sign_length s1) s1
      in case stod_body s2 of
           None \<Rightarrow> Inl (Std_invalid_argument ''stod'')
         | Some (v, n) \<Rightarrow>
             if overflows v \<or> underflows v then Inl (Std_out_of_range ''stod'')
             else Inr (if negative s1 then negate v else v, length ws + sign_length s1 + n))"

text \<open>The two overloads of \<^verbatim>\<open>throw_error_wrong_data_type\<close>.\<close>

definition throw_error_wrong_data_type_int :: "string \<Rightarrow> int \<Rightarrow> string \<Rightarrow> string \<Rightarrow> error" where
  "throw_error_wrong_data_type_int snumbersubstring number variablename sectionname =
     Four_C_Throw
       (''Failed to read value '%s' while reading variable '%s' in '%s'. 4C could only read '' @
        '''%d', so the specified number format is probably not supported. The variable '%s' '' @
        ''has to be an integer.'')
       [Str snumbersubstring, Str variablename, Str sectionname, Dec number, Str variablename]"

definition throw_error_wrong_data_type_double ::
  "string \<Rightarrow> double \<Rightarrow> string \<Rightarrow> string \<Rightarrow> error" where
  "throw_error_wrong_data_type_double snumbersubstring number variablename sectionname =
     Four_C_Throw
       (''Failed to read value '%s' while reading variable '%s' in '%s'. 4C could only read '' @
        '''%f', so the specified number format is probably not supported. The variable '%s' '' @
        ''has to be a floating point.'')
       [Str snumbersubstring, Str variablename, Str sectionname, Flt number, Str variablename]"

text \<open>
  The template \<^verbatim>\<open>convert_and_validate_string_to_number<T>\<close>: its two parameters are
  what the type \<open>T\<close> selects, the conversion and the overload of the error function.
\<close>

definition convert_and_validate_string_to_number ::
  "(string \<Rightarrow> error + ('a \<times> nat)) \<Rightarrow> (string \<Rightarrow> 'a \<Rightarrow> string \<Rightarrow> string \<Rightarrow> error) \<Rightarrow>
   string \<Rightarrow> string \<Rightarrow> string \<Rightarrow> int \<Rightarrow> bool \<Rightarrow> error + 'a" where
  "convert_and_validate_string_to_number convert_string_to_number throw_error_wrong_data_type
       snumber variablename sectionname variablelength optional =
     (case convert_string_to_number snumber of
        Inl (Std_invalid_argument w) \<Rightarrow>
          if \<not> optional \<and> snumber = [] then
            Inl (Four_C_Throw
              (''Invalid argument! No value of variable '%s' in '%s' specified. Possibly you '' @
               ''didn't give enough input values. The variable '%s' expects %i input values.'')
              [Str variablename, Str sectionname, Str variablename, Dec variablelength])
          else
            Inl (Four_C_Throw
              ''Invalid argument! Failed to read the value '%s' of variable '%s' in '%s'.''
              [Str snumber, Str variablename, Str sectionname, Str variablename])
      | Inl e \<Rightarrow> Inl e
      | Inr (number, pos) \<Rightarrow>
          if pos \<noteq> length snumber then
            Inl (throw_error_wrong_data_type (drop pos snumber) number variablename sectionname)
          else Inr number)"

definition convert_and_validate_int :: "string \<Rightarrow> string \<Rightarrow> string \<Rightarrow> int \<Rightarrow> bool \<Rightarrow> error + int" where
  "convert_and_validate_int =
     convert_and_validate_string_to_number stoi throw_error_wrong_data_type_int"

definition convert_and_validate_double ::
  "string \<Rightarrow> string \<Rightarrow> string \<Rightarrow> int \<Rightarrow> bool \<Rightarrow> error + double" where
  "convert_and_validate_double =
     convert_and_validate_string_to_number stod throw_error_wrong_data_type_double"

section \<open>Line components\<close>

text \<open>
  The length of a vector component, \<^verbatim>\<open>std::variant<int, LengthDefinition>\<close>: a number,
  or a function of the container that is being filled.
\<close>

datatype length_t =
    Length_int int
  | Length_definition "InputParameterContainer \<Rightarrow> error + int"

text \<open>
  Modelled from the spec: the length definition \<open>Derived(field_name)\<close> (a helper of the
  header \<^verbatim>\<open>4C_io_linecomponent.hpp\<close>, which is not part of the sources at hand) looks
  the named field up in the container and returns the integer stored there.
\<close>

definition LengthFromInt :: "string \<Rightarrow> length_t" where
  "LengthFromInt field_name = Length_definition (\<lambda>container. get_int container field_name)"

text \<open>The data members of a \<^verbatim>\<open>SelectionComponent\<close>.\<close>

record selection =
  sel_name :: string
  defaultvalue :: string
  datfilevalues :: "string list"
  stringcondvalues :: "string list"
  intcondvalues :: "int list"
  stringtostring :: bool

text \<open>
  The component classes, each with the name and the \<open>optional\<close> flag of its base class
  \<^verbatim>\<open>LineComponent\<close> first (a separator's name is always \<^verbatim>\<open>*SEPARATOR*\<close>). The
  choices of a switch are its \<^verbatim>\<open>std::map\<close> as the list of its entries in key order.
\<close>

datatype component =
    SeparatorComponent bool string string
  | StringComponent string bool string
  | SelectionComponent selection
  | IntComponent string bool int
  | IntVectorComponent string bool length_t int
  | RealComponent string bool double
  | RealVectorComponent string bool length_t double
  | BoolComponent string bool bool
  | SwitchComponent string int "(int \<times> string \<times> component list) list" selection
  | ProcessedComponent string bool "string \<Rightarrow> InputParameterContainer \<Rightarrow> error + InputParameterContainer"

subsection \<open>Constructors\<close>

text \<open>
  Both constructors of \<^verbatim>\<open>SelectionComponent\<close> pass only the name to the base class, so
  the component is never optional whatever the argument says. They throw when the default
  is not among the accepted labels or the two lists differ in length.
\<close>

definition new_SelectionComponent_string ::
  "string \<Rightarrow> string \<Rightarrow> string list \<Rightarrow> string list \<Rightarrow> bool \<Rightarrow> error + selection" where
  "new_SelectionComponent_string name dflt datfile stringcond optional =
     (if dflt \<notin> set datfile then Inl (Four_C_Throw ''Invalid default value '%s'.'' [Str dflt])
      else if length datfile \<noteq> length stringcond then
        Inl (Four_C_Throw ''Input file values must match condition values.'' [])
      else Inr \<lparr>sel_name = name, defaultvalue = dflt, datfilevalues = datfile,
                stringcondvalues = stringcond, intcondvalues = [- 1], stringtostring = True\<rparr>)"

definition new_SelectionComponent_int ::
  "string \<Rightarrow> string \<Rightarrow> string list \<Rightarrow> int list \<Rightarrow> bool \<Rightarrow> error + selection" where
  "new_SelectionComponent_int name dflt datfile intcond optional =
     (if dflt \<notin> set datfile then Inl (Four_C_Throw ''Invalid default value '%s'.'' [Str dflt])
      else if length datfile \<noteq> length intcond then
        Inl (Four_C_Throw ''Input file values must match condition values.'' [])
      else Inr \<lparr>sel_name = name, defaultvalue = dflt, datfilevalues = datfile,
                stringcondvalues = [''notdefined''], intcondvalues = intcond,
                stringtostring = False\<rparr>)"

text \<open>
  The constructor of \<^verbatim>\<open>IntVectorComponent\<close> with a fixed length takes the flag from
  its data; the one with a length definition passes only the name to the base class. Both
  constructors of \<^verbatim>\<open>RealVectorComponent\<close> take the flag from the data.
\<close>

definition new_IntVectorComponent :: "string \<Rightarrow> int \<Rightarrow> int \<Rightarrow> bool \<Rightarrow> component" where
  "new_IntVectorComponent name len default_value optional =
     IntVectorComponent name optional (Length_int len) default_value"

definition new_IntVectorComponent_from ::
  "string \<Rightarrow> length_t \<Rightarrow> int \<Rightarrow> bool \<Rightarrow> component" where
  "new_IntVectorComponent_from name length_from_component default_value optional =
     IntVectorComponent name False length_from_component default_value"

text \<open>
  The constructor of \<^verbatim>\<open>SwitchComponent\<close> collects keys and labels in key order and
  builds the selection over them. \<^verbatim>\<open>choices_[default_key_]\<close> adds an entry with an
  empty label and no components when the default key has none, after the labels were
  collected.
\<close>

definition new_SwitchComponent ::
  "string \<Rightarrow> int \<Rightarrow> (int \<times> string \<times> component list) list \<Rightarrow> error + component" where
  "new_SwitchComponent name default_key choices =
     (let keys = map fst choices;
          names_for_keys = map (\<lambda>choice. fst (snd choice)) choices;
          choices' = (case map_of choices default_key of
                        None \<Rightarrow> choices @ [(default_key, ([], []))]
                      | Some _ \<Rightarrow> choices);
          default_label = (case map_of choices default_key of
                             None \<Rightarrow> []
                           | Some choice \<Rightarrow> fst choice)
      in case new_SelectionComponent_int name default_label names_for_keys keys False of
           Inl e \<Rightarrow> Inl e
         | Inr component_for_key \<Rightarrow> Inr (SwitchComponent name default_key choices' component_for_key))"

subsection \<open>Reading\<close>

text \<open>
  A \<^verbatim>\<open>read\<close> returns the error it threw, if any, with the stream and the container as
  they are at that moment.
\<close>

type_synonym outcome = "error option \<times> stringstream \<times> InputParameterContainer"

definition SeparatorComponent_read ::
  "string \<Rightarrow> bool \<Rightarrow> string \<Rightarrow> stringstream \<Rightarrow> InputParameterContainer \<Rightarrow> outcome" where
  "SeparatorComponent_read section_name optional separator condline container =
     (case str_find (str condline) ('' '' @ separator @ '' '') of
        None \<Rightarrow>
          if optional then (None, seekg_end condline, container)
          else (Some (Four_C_Throw
                  ''Required parameter '%s' for section '%s' not specified in input file!''
                  [Str separator, Str section_name]), condline, container)
      | Some found \<Rightarrow>
          let position = found + 1 in
          (case erase (str condline) position (length separator) of
             Inl e \<Rightarrow> (Some e, condline, container)
           | Inr s \<Rightarrow> (None, seekg (int position) (set_str s condline), container)))"

text \<open>
  The two statements that every value reader runs after a token \<open>s\<close> was extracted:
  \<^verbatim>\<open>condline->str(condline->str().erase((size_t)condline->tellg() - s.size(), s.size()))\<close>
  and \<^verbatim>\<open>condline->seekg(position)\<close>.
\<close>

definition remove_value :: "string \<Rightarrow> int \<Rightarrow> stringstream \<Rightarrow> error option \<times> stringstream" where
  "remove_value s position condline =
     (let (t, c1) = tellg condline in
      case erase (str c1) (size_t_minus (size_t_of t) (length s)) (length s) of
        Inl e \<Rightarrow> (Some e, c1)
      | Inr s' \<Rightarrow> (None, seekg position (set_str s' c1)))"

definition StringComponent_read ::
  "string \<Rightarrow> string \<Rightarrow> string \<Rightarrow> stringstream \<Rightarrow> InputParameterContainer \<Rightarrow> outcome" where
  "StringComponent_read section_name name dflt condline container =
     (let (position, c1) = tellg condline in
      if size_t_of position \<noteq> length (str c1) then
        let (s, c2) = extract_string c1 dflt in
        if s = [] then
          (Some (Four_C_Throw
             ''Value of parameter '%s' for section '%s' not properly specified in input file!''
             [Str name, Str section_name]), c2, container)
        else
          (case remove_value s position c2 of
             (Some e, c3) \<Rightarrow> (Some e, c3, container)
           | (None, c3) \<Rightarrow> (None, c3, add container name (VString s)))
      else (None, c1, add container name (VString dflt)))"

text \<open>
  The loop of \<^verbatim>\<open>SelectionComponent::read\<close> over the labels left: \<open>position\<close> is the
  result of the last \<^verbatim>\<open>find\<close> (\<open>None\<close> for \<^verbatim>\<open>npos\<close>).
\<close>

fun selection_scan :: "string \<Rightarrow> string list \<Rightarrow> nat option \<times> string \<Rightarrow> nat option \<times> string" where
  "selection_scan text [] found = found"
| "selection_scan text (v # vs) (position, selected_value) =
     (case str_find text ('' '' @ v @ '' '') of
        Some p \<Rightarrow> (Some p, v)
      | None \<Rightarrow> selection_scan text vs (None, selected_value))"

text \<open>
  \<^verbatim>\<open>std::distance(begin, std::find(begin, end, v))\<close>: the first index of \<open>v\<close>, the
  length of the list when it has none.
\<close>

primrec find_index_of :: "string \<Rightarrow> string list \<Rightarrow> nat" where
  "find_index_of v [] = 0"
| "find_index_of v (x # xs) = (if x = v then 0 else Suc (find_index_of v xs))"

definition array_at :: "'a list \<Rightarrow> nat \<Rightarrow> error + 'a" where
  "array_at xs i = (if i < length xs then Inr (xs ! i) else Inl (Teuchos_RangeError i))"

text \<open>
  After the loop \<open>position\<close> is incremented without a test: \<^verbatim>\<open>npos + 1\<close> wraps to
  \<open>0\<close>. The initial value of \<open>position\<close> is \<open>0\<close>.
\<close>

definition SelectionComponent_read ::
  "string \<Rightarrow> selection \<Rightarrow> stringstream \<Rightarrow> InputParameterContainer \<Rightarrow> outcome" where
  "SelectionComponent_read section_name sel condline container =
     (let (found, selected_value) =
            selection_scan (str condline) (datfilevalues sel) (Some 0, defaultvalue sel);
          position = (case found of None \<Rightarrow> 0 | Some p \<Rightarrow> p + 1)
      in case erase (str condline) position (length selected_value) of
           Inl e \<Rightarrow> (Some e, condline, container)
         | Inr s \<Rightarrow>
             let c1 = seekg (int position) (set_str s condline);
                 pos = find_index_of selected_value (datfilevalues sel)
             in if stringtostring sel then
                  (case array_at (stringcondvalues sel) pos of
                     Inl e \<Rightarrow> (Some e, c1, container)
                   | Inr v \<Rightarrow> (None, c1, add container (sel_name sel) (VString v)))
                else
                  (case array_at (intcondvalues sel) pos of
                     Inl e \<Rightarrow> (Some e, c1, container)
                   | Inr v \<Rightarrow> (None, c1, add container (sel_name sel) (VInt v))))"

definition IntComponent_read ::
  "string \<Rightarrow> string \<Rightarrow> bool \<Rightarrow> int \<Rightarrow> stringstream \<Rightarrow> InputParameterContainer \<Rightarrow> outcome" where
  "IntComponent_read section_name name optional default_value condline container =
     (let (position, c1) = tellg condline in
      if size_t_of position \<noteq> length (str c1) then
        let (snumber, c2) = extract_string c1 [] in
        case (if \<not> optional \<or> snumber \<noteq> []
              then convert_and_validate_int snumber name section_name 1 optional
              else Inr default_value) of
          Inl e \<Rightarrow> (Some e, c2, container)
        | Inr number \<Rightarrow>
            (case remove_value snumber position c2 of
               (Some e, c3) \<Rightarrow> (Some e, c3, container)
             | (None, c3) \<Rightarrow> (None, c3, add container name (VInt number)))
      else (None, c1, add container name (VInt default_value)))"

text \<open>
  The visitor \<^verbatim>\<open>LengthVisitor\<close>, and the vector \<^verbatim>\<open>std::vector<T>(n, v)\<close>, whose
  constructor throws \<^verbatim>\<open>std::length_error\<close> for a negative \<open>n\<close> (a huge unsigned size).
\<close>

definition LengthVisitor :: "InputParameterContainer \<Rightarrow> length_t \<Rightarrow> error + int" where
  "LengthVisitor condition len =
     (case len of Length_int n \<Rightarrow> Inr n | Length_definition f \<Rightarrow> f condition)"

definition new_vector :: "int \<Rightarrow> 'a \<Rightarrow> error + 'a list" where
  "new_vector n v =
     (if n < 0 then Inl (Std_length_error ''cannot create std::vector larger than max_size()'')
      else Inr (replicate (nat n) v))"

text \<open>
  The loop over the slots of the vector, the same text in \<^verbatim>\<open>IntVectorComponent::read\<close>
  and \<^verbatim>\<open>RealVectorComponent::read\<close>: \<open>convert\<close> is the conversion of the element type.
  It returns the vector with the slots read so far replaced.
\<close>

fun vector_loop ::
  "(string \<Rightarrow> error + 'a) \<Rightarrow> bool \<Rightarrow> int \<Rightarrow> 'a list \<Rightarrow> stringstream \<Rightarrow>
   error option \<times> stringstream \<times> 'a list" where
  "vector_loop convert optional position [] condline = (None, condline, [])"
| "vector_loop convert optional position (current_number # slots) condline =
     (let (snumber, c1) = extract_string condline [] in
      if optional \<and> snumber = [] then (None, c1, current_number # slots)
      else
        case convert snumber of
          Inl e \<Rightarrow> (Some e, c1, current_number # slots)
        | Inr number \<Rightarrow>
            (case remove_value snumber position c1 of
               (Some e, c2) \<Rightarrow> (Some e, c2, number # slots)
             | (None, c2) \<Rightarrow>
                 (case vector_loop convert optional position slots c2 of
                    (e, c3, rest) \<Rightarrow> (e, c3, number # rest))))"

definition IntVectorComponent_read ::
  "string \<Rightarrow> string \<Rightarrow> bool \<Rightarrow> length_t \<Rightarrow> int \<Rightarrow> stringstream \<Rightarrow> InputParameterContainer \<Rightarrow>
   outcome" where
  "IntVectorComponent_read section_name name optional len default_value condline container =
     (case LengthVisitor container len of
        Inl e \<Rightarrow> (Some e, condline, container)
      | Inr dynamic_length \<Rightarrow>
          (case new_vector dynamic_length default_value of
             Inl e \<Rightarrow> (Some e, condline, container)
           | Inr nnumbers \<Rightarrow>
               let (position, c1) = tellg condline in
               if size_t_of position \<noteq> length (str c1) then
                 (case vector_loop
                         (\<lambda>snumber. convert_and_validate_int snumber name section_name
                                       dynamic_length optional)
                         optional position nnumbers c1 of
                    (Some e, c2, _) \<Rightarrow> (Some e, c2, container)
                  | (None, c2, numbers) \<Rightarrow> (None, c2, add container name (VIntVector numbers)))
               else (None, c1, add container name (VIntVector nnumbers))))"

definition RealComponent_read ::
  "string \<Rightarrow> string \<Rightarrow> bool \<Rightarrow> double \<Rightarrow> stringstream \<Rightarrow> InputParameterContainer \<Rightarrow> outcome" where
  "RealComponent_read section_name name optional default_value condline container =
     (let (position, c1) = tellg condline in
      if size_t_of position \<noteq> length (str c1) then
        let (snumber, c2) = extract_string c1 [] in
        if \<not> (optional \<and> snumber = []) then
          (case convert_and_validate_double snumber name section_name 1 optional of
             Inl e \<Rightarrow> (Some e, c2, container)
           | Inr number \<Rightarrow>
               (case remove_value snumber position c2 of
                  (Some e, c3) \<Rightarrow> (Some e, c3, container)
                | (None, c3) \<Rightarrow> (None, c3, add container name (VReal number))))
        else (None, c2, add container name (VReal default_value))
      else (None, c1, add container name (VReal default_value)))"

definition RealVectorComponent_read ::
  "string \<Rightarrow> string \<Rightarrow> bool \<Rightarrow> length_t \<Rightarrow> double \<Rightarrow> stringstream \<Rightarrow> InputParameterContainer \<Rightarrow>
   outcome" where
  "RealVectorComponent_read section_name name optional len default_value condline container =
     (case LengthVisitor container len of
        Inl e \<Rightarrow> (Some e, condline, container)
      | Inr dynamic_length \<Rightarrow>
          (case new_vector dynamic_length default_value of
             Inl e \<Rightarrow> (Some e, condline, container)
           | Inr nnumbers \<Rightarrow>
               let (position, c1) = tellg condline in
               if size_t_of position \<noteq> length (str c1) then
                 (case vector_loop
                         (\<lambda>snumber. convert_and_validate_double snumber name section_name
                                       dynamic_length optional)
                         optional position nnumbers c1 of
                    (Some e, c2, _) \<Rightarrow> (Some e, c2, container)
                  | (None, c2, numbers) \<Rightarrow> (None, c2, add container name (VRealVector numbers)))
               else (None, c1, add container name (VRealVector nnumbers))))"

definition BoolComponent_read ::
  "string \<Rightarrow> string \<Rightarrow> bool \<Rightarrow> stringstream \<Rightarrow> InputParameterContainer \<Rightarrow> outcome" where
  "BoolComponent_read section_name name dflt condline container =
     (let (position, c1) = tellg condline in
      if size_t_of position \<noteq> length (str c1) then
        let (sboolean, c2) = extract_string c1 [] in
        case (if sboolean = ''Yes'' \<or> sboolean = ''YES'' \<or> sboolean = ''yes'' \<or>
                 sboolean = ''True'' \<or> sboolean = ''TRUE'' \<or> sboolean = ''true''
              then Inr True
              else if sboolean = ''No'' \<or> sboolean = ''NO'' \<or> sboolean = ''no'' \<or>
                      sboolean = ''False'' \<or> sboolean = ''FALSE'' \<or> sboolean = ''false''
              then Inr False
              else Inl (Four_C_Throw
                ''Value of parameter '%s' for section '%s' not properly specified in input file!''
                [Str name, Str section_name])) of
          Inl e \<Rightarrow> (Some e, c2, container)
        | Inr boolean \<Rightarrow>
            (case remove_value sboolean position c2 of
               (Some e, c3) \<Rightarrow> (Some e, c3, container)
             | (None, c3) \<Rightarrow> (None, c3, add container name (VBool boolean)))
      else (None, c1, add container name (VBool dflt)))"

definition ProcessedComponent_read ::
  "string \<Rightarrow> string \<Rightarrow> (string \<Rightarrow> InputParameterContainer \<Rightarrow> error + InputParameterContainer) \<Rightarrow>
   stringstream \<Rightarrow> InputParameterContainer \<Rightarrow> outcome" where
  "ProcessedComponent_read section_name name insert_operation condline container =
     (let (position, c1) = tellg condline in
      if size_t_of position \<noteq> length (str c1) then
        let (s, c2) = extract_string c1 [] in
        if s = [] then
          (Some (Four_C_Throw
             ''Value of parameter '%s' for section '%s' not properly specified in input file!''
             [Str name, Str section_name]), c2, container)
        else
          (case remove_value s position c2 of
             (Some e, c3) \<Rightarrow> (Some e, c3, container)
           | (None, c3) \<Rightarrow>
               (case insert_operation s container of
                  Inl e \<Rightarrow> (Some e, c3, container)
                | Inr container' \<Rightarrow> (None, c3, container')))
      else (None, c1, container))"

text \<open>The components of a choice are smaller than the switch that holds them.\<close>

lemma map_of_choice_size:
  "map_of choices key = Some (label, components) \<Longrightarrow>
   size_list size components
     < Suc (size_list (size_prod (\<lambda>x. 0) (size_prod (\<lambda>x. 0) (size_list size))) choices)"
  by (induction choices) (auto split: if_splits)

text \<open>
  The virtual \<^verbatim>\<open>read\<close> dispatches on the class of the component. A switch reads its
  selection first, gets the key back from the container under the selection's name, and
  reads the components of that key in order; \<^verbatim>\<open>FOUR_C_ASSERT\<close> is the check that the
  key has an entry. \<open>read_all\<close> is the loop over a list of components that the switch and
  the driver of a line run: each component reads from the stream and into the container
  that the one before it left.
\<close>

function (sequential)
  read :: "string \<Rightarrow> component \<Rightarrow> stringstream \<Rightarrow> InputParameterContainer \<Rightarrow> outcome" and
  read_all :: "string \<Rightarrow> component list \<Rightarrow> stringstream \<Rightarrow> InputParameterContainer \<Rightarrow> outcome"
where
  "read section_name (SeparatorComponent optional separator description) condline container =
     SeparatorComponent_read section_name optional separator condline container"
| "read section_name (StringComponent name optional dflt) condline container =
     StringComponent_read section_name name dflt condline container"
| "read section_name (SelectionComponent sel) condline container =
     SelectionComponent_read section_name sel condline container"
| "read section_name (IntComponent name optional default_value) condline container =
     IntComponent_read section_name name optional default_value condline container"
| "read section_name (IntVectorComponent name optional len default_value) condline container =
     IntVectorComponent_read section_name name optional len default_value condline container"
| "read section_name (RealComponent name optional default_value) condline container =
     RealComponent_read section_name name optional default_value condline container"
| "read section_name (RealVectorComponent name optional len default_value) condline container =
     RealVectorComponent_read section_name name optional len default_value condline container"
| "read section_name (BoolComponent name optional dflt) condline container =
     BoolComponent_read section_name name dflt condline container"
| "read section_name (SwitchComponent name default_key choices component_for_key) condline
       container =
     (case SelectionComponent_read section_name component_for_key condline container of
        (Some e, c1, container1) \<Rightarrow> (Some e, c1, container1)
      | (None, c1, container1) \<Rightarrow>
          (case get_int container1 (sel_name component_for_key) of
             Inl e \<Rightarrow> (Some e, c1, container1)
           | Inr key \<Rightarrow>
               (case map_of choices key of
                  None \<Rightarrow> (Some (Four_C_Throw ''Internal error.'' []), c1, container1)
                | Some choice \<Rightarrow> read_all section_name (snd choice) c1 container1)))"
| "read section_name (ProcessedComponent name optional insert_operation) condline container =
     ProcessedComponent_read section_name name insert_operation condline container"
| "read_all section_name [] condline container = (None, condline, container)"
| "read_all section_name (component # components) condline container =
     (case read section_name component condline container of
        (Some e, c1, container1) \<Rightarrow> (Some e, c1, container1)
      | (None, c1, container1) \<Rightarrow> read_all section_name components c1 container1)"
  by pat_completeness auto

termination
  by (relation "measure (case_sum (\<lambda>(s, c, l, k). size c) (\<lambda>(s, cs, l, k). size_list size cs))")
     (auto simp: map_of_choice_size)

subsection \<open>Default lines\<close>

text \<open>\<^verbatim>\<open>std::to_string\<close> of an \<^verbatim>\<open>int\<close>, which is also what \<^verbatim>\<open>stream << int\<close> prints.\<close>

fun digit_chars :: "nat \<Rightarrow> string" where
  "digit_chars n =
     (if n < 10 then [char_of (48 + n)]
      else digit_chars (n div 10) @ [char_of (48 + n mod 10)])"

declare digit_chars.simps [simp del]

definition to_string :: "int \<Rightarrow> string" where
  "to_string i = (if i < 0 then CHR ''-'' # digit_chars (nat (- i)) else digit_chars (nat i))"

definition DefaultLengthVisitor :: "length_t \<Rightarrow> int" where
  "DefaultLengthVisitor len = (case len of Length_int n \<Rightarrow> n | Length_definition f \<Rightarrow> 1)"

text \<open>
  \<^verbatim>\<open>default_line\<close> writes the default of a component to a stream; \<open>print_double\<close> is what
  \<^verbatim>\<open>stream << double\<close> prints, a parameter of the model. A switch prints the default
  label and the components of the default key, a blank after each. \<open>default_line_all\<close>
  prints a list of components in that way.
\<close>

function (sequential)
  default_line :: "(double \<Rightarrow> string) \<Rightarrow> component \<Rightarrow> string" and
  default_line_all :: "(double \<Rightarrow> string) \<Rightarrow> component list \<Rightarrow> string"
where
  "default_line print_double (SeparatorComponent optional separator description) = separator"
| "default_line print_double (StringComponent name optional dflt) = dflt"
| "default_line print_double (SelectionComponent sel) = defaultvalue sel"
| "default_line print_double (IntComponent name optional default_value) = to_string default_value"
| "default_line print_double (IntVectorComponent name optional len default_value) =
     concat (replicate (nat (DefaultLengthVisitor len)) (to_string default_value @ '' ''))"
| "default_line print_double (RealComponent name optional default_value) =
     print_double default_value"
| "default_line print_double (RealVectorComponent name optional len default_value) =
     concat (replicate (nat (DefaultLengthVisitor len)) (print_double default_value))"
| "default_line print_double (BoolComponent name optional dflt) = (if dflt then ''Yes'' else ''No'')"
| "default_line print_double (SwitchComponent name default_key choices component_for_key) =
     defaultvalue component_for_key @ '' '' @
     (case map_of choices default_key of
        None \<Rightarrow> []
      | Some choice \<Rightarrow> default_line_all print_double (snd choice))"
| "default_line print_double (ProcessedComponent name optional insert_operation) = ''none''"
| "default_line_all print_double [] = []"
| "default_line_all print_double (component # components) =
     default_line print_double component @ '' '' @ default_line_all print_double components"
  by pat_completeness auto

termination
  by (relation "measure (case_sum (\<lambda>(p, c). size c) (\<lambda>(p, cs). size_list size cs))")
     (auto simp: map_of_choice_size)

section \<open>Predicates of the statements\<close>


text \<open>A label occurs in a line with a blank right before it and a blank right after it.\<close>

definition occurs_spaced :: "string \<Rightarrow> string \<Rightarrow> bool" where
  "occurs_spaced label line \<longleftrightarrow> (\<exists>pre post. line = pre @ '' '' @ label @ '' '' @ post)"

text \<open>The value that a selection pairs with its label number \<open>i\<close>.\<close>

definition payload :: "selection \<Rightarrow> nat \<Rightarrow> entry" where
  "payload sel i =
     (if stringtostring sel then VString (stringcondvalues sel ! i)
      else VInt (intcondvalues sel ! i))"

text \<open>A selection that one of the two constructors has returned.\<close>

definition constructed_selection :: "selection \<Rightarrow> bool" where
  "constructed_selection sel \<longleftrightarrow>
     (\<exists>optional.
        new_SelectionComponent_string (sel_name sel) (defaultvalue sel) (datfilevalues sel)
          (stringcondvalues sel) optional = Inr sel \<or>
        new_SelectionComponent_int (sel_name sel) (defaultvalue sel) (datfilevalues sel)
          (intcondvalues sel) optional = Inr sel)"

text \<open>
  The stream is good, \<open>pre\<close> is the text before its position, and the text goes on with
  the whitespace \<open>ws\<close>, the token \<open>tok\<close> and a rest that starts with whitespace.
\<close>

definition next_token :: "stringstream \<Rightarrow> string \<Rightarrow> string \<Rightarrow> string \<Rightarrow> string \<Rightarrow> bool" where
  "next_token c pre ws tok rest \<longleftrightarrow>
     good c \<and> gpos c = length pre \<and> buf c = pre @ ws @ tok @ rest \<and>
     list_all isspace ws \<and> tok \<noteq> [] \<and> list_all (\<lambda>ch. \<not> isspace ch) tok \<and>
     rest \<noteq> [] \<and> isspace (hd rest)"



text \<open>The field list of the stoichiometry example.\<close>

definition scatra_fields :: "component list" where
  "scatra_fields =
     [SeparatorComponent False ''NUMSCAL'' [],
      IntComponent ''NUMSCAL'' False 0,
      SeparatorComponent False ''STOICHIOMETRIES'' [],
      new_IntVectorComponent_from ''STOICHIOMETRIES'' (LengthFromInt ''NUMSCAL'') 0 False]"

text \<open>The name under which a component stores its value, if it stores one.\<close>

fun stores_under :: "component \<Rightarrow> string option" where
  "stores_under (SeparatorComponent optional separator description) = None"
| "stores_under (StringComponent name optional dflt) = Some name"
| "stores_under (SelectionComponent sel) = Some (sel_name sel)"
| "stores_under (IntComponent name optional default_value) = Some name"
| "stores_under (IntVectorComponent name optional len default_value) = Some name"
| "stores_under (RealComponent name optional default_value) = Some name"
| "stores_under (RealVectorComponent name optional len default_value) = Some name"
| "stores_under (BoolComponent name optional dflt) = Some name"
| "stores_under (SwitchComponent name default_key choices component_for_key) =
     Some (sel_name component_for_key)"
| "stores_under (ProcessedComponent name optional insert_operation) = None"

text \<open>
  No \<^verbatim>\<open>ProcessedComponent\<close> occurs in the component, at any depth: the insertion
  function of such a component may do anything to the container.
\<close>

lemma choice_member_size:
  "choice \<in> set choices \<Longrightarrow> c \<in> set (snd (snd choice)) \<Longrightarrow>
   size c < Suc (size_list (size_prod (\<lambda>x. 0) (size_prod (\<lambda>x. 0) (size_list size))) choices)"
proof (induction choices)
  case Nil
  then show ?case by simp
next
  case (Cons a choices)
  show ?case
  proof (cases "choice = a")
    case True
    have "size c \<le> size_list size (snd (snd a))"
      using Cons.prems(2) True by (simp add: size_list_estimation')
    then show ?thesis by (cases a) auto
  next
    case False
    then show ?thesis using Cons by auto
  qed
qed

function (sequential) no_processed :: "component \<Rightarrow> bool" where
  "no_processed (ProcessedComponent name optional insert_operation) = False"
| "no_processed (SwitchComponent name default_key choices component_for_key) =
     (\<forall>choice\<in>set choices. \<forall>c\<in>set (snd (snd choice)). no_processed c)"
| "no_processed c = True"
  by pat_completeness auto
termination
  by (relation "measure size") (auto simp: choice_member_size)

text \<open>A switch with two keys, for the examples.\<close>

definition example_choices :: "(int \<times> string \<times> component list) list" where
  "example_choices =
     [(1, ''Std'', [IntComponent ''A'' False 0]),
      (2, ''Mod'', [BoolComponent ''B'' False False, IntComponent ''C'' False 0])]"

definition example_switch :: component where
  "example_switch =
     SwitchComponent ''TYPE'' 1 example_choices
       \<lparr>sel_name = ''TYPE'', defaultvalue = ''Std'', datfilevalues = [''Std'', ''Mod''],
        stringcondvalues = [''notdefined''], intcondvalues = [1, 2], stringtostring = False\<rparr>"





text \<open>A selection over two labels with integer values, for the examples.\<close>

definition example_selection :: selection where
  "example_selection =
     \<lparr>sel_name = ''TYPE'', defaultvalue = ''Mod'', datfilevalues = [''Std'', ''Mod''],
      stringcondvalues = [''notdefined''], intcondvalues = [10, 20], stringtostring = False\<rparr>"

section \<open>Facts about the stream and the conversions\<close>

lemma tellg_good: "good c \<Longrightarrow> tellg c = (int (gpos c), c)"
  by (simp add: tellg_def)

lemma size_t_of_int: "size_t_of (int n) = n"
  by (simp add: size_t_of_def)

lemma not_overflows_small: "\<bar>v\<bar> < 2 ^ 64 \<Longrightarrow> \<not> overflows (Finite v)"
proof -
  assume a: "\<bar>v\<bar> < 2 ^ 64"
  have "(2::rat) ^ 64 \<le> 2 ^ 970"
    by (rule power_increasing) simp_all
  moreover have "(2::rat) ^ 970 + 2 ^ 970 \<le> 2 ^ 1024"
  proof -
    have "(2::rat) ^ 970 + 2 ^ 970 = 2 ^ 971"
      by simp
    also have "\<dots> \<le> 2 ^ 1024"
      by (rule power_increasing) simp_all
    finally show ?thesis .
  qed
  ultimately show ?thesis
    using a by (simp add: overflows_def)
qed

lemma not_underflows_large: "1 \<le> \<bar>v\<bar> \<Longrightarrow> \<not> underflows (Finite v)"
proof -
  assume a: "1 \<le> \<bar>v\<bar>"
  have "(1::rat) / 2 ^ 1022 \<le> 1"
    by simp
  moreover have "(0::rat) < 1 / 2 ^ 1076"
    by simp
  ultimately have "(1::rat) / 2 ^ 1022 - 1 / 2 ^ 1076 \<le> 1"
    by linarith
  then show ?thesis
    using a by (simp add: underflows_def)
qed

lemma stod_body_example: "stod_body ''3.14abc'' = Some (Finite (314 / 100), 4)"
  by code_simp

lemma stod_example: "stod ''3.14abc'' = Inr (Finite (314 / 100), 4)"
  by (simp add: stod_def stod_body_example not_overflows_small not_underflows_large
      isspace_def sign_length_def negative_def)

lemma stoi_example: "stoi ''12abc'' = Inr (12, 2)"
  by code_simp

subsection \<open>The position stays in the text\<close>














lemma BoolComponent_read_shape:
  assumes t: "tellg c = (position, c1)"
    and x: "extract_string c1 [] = (s, c2)"
    and rv: "remove_value s position c2 = (r, c3)"
  shows "\<exists>cls. BoolComponent_read sec name d c k =
           (if size_t_of position \<noteq> length (str c1) then
              (case cls of
                 Inl e \<Rightarrow> (Some e, c2, k)
               | Inr b \<Rightarrow> (case r of Some e \<Rightarrow> (Some e, c3, k)
                          | None \<Rightarrow> (None, c3, add k name (VBool b))))
            else (None, c1, add k name (VBool d)))"
proof -
  define cls :: "error + bool" where
    "cls = (if s = ''Yes'' \<or> s = ''YES'' \<or> s = ''yes'' \<or>
                 s = ''True'' \<or> s = ''TRUE'' \<or> s = ''true''
              then Inr True
              else if s = ''No'' \<or> s = ''NO'' \<or> s = ''no'' \<or>
                      s = ''False'' \<or> s = ''FALSE'' \<or> s = ''false''
              then Inr False
              else Inl (Four_C_Throw
                ''Value of parameter '%s' for section '%s' not properly specified in input file!''
                [Str name, Str sec]))"
  have "BoolComponent_read sec name d c k =
           (if size_t_of position \<noteq> length (str c1) then
              (case cls of
                 Inl e \<Rightarrow> (Some e, c2, k)
               | Inr b \<Rightarrow> (case r of Some e \<Rightarrow> (Some e, c3, k)
                          | None \<Rightarrow> (None, c3, add k name (VBool b))))
            else (None, c1, add k name (VBool d)))"
    unfolding BoolComponent_read_def t x Let_def case_prod_conv cls_def [symmetric] rv
    by (cases r) simp_all
  then show ?thesis ..
qed






subsection \<open>Searching for a label\<close>

lemma take_eq_length: "take n xs = ys \<Longrightarrow> length ys \<le> length xs"
  by auto

lemma str_find_Some_D:
  "str_find s pat = Some i \<Longrightarrow> i + length pat \<le> length s \<and> take (length pat) (drop i s) = pat"
proof (induction s arbitrary: i)
  case Nil
  then show ?case by (simp split: if_splits)
next
  case (Cons c s)
  show ?case
  proof (cases "take (length pat) (c # s) = pat")
    case True
    then have "length pat \<le> length (c # s)"
      by (rule take_eq_length)
    then show ?thesis using Cons.prems True by simp
  next
    case False
    then obtain j where "str_find s pat = Some j" "i = Suc j"
      using Cons.prems by auto
    then show ?thesis using Cons.IH by simp
  qed
qed

lemma str_find_Some_split:
  assumes "str_find s pat = Some i"
  shows "s = take i s @ pat @ drop (i + length pat) s"
proof -
  have "take (length pat) (drop i s) = pat"
    using assms str_find_Some_D by blast
  then have "drop i s = pat @ drop (length pat) (drop i s)"
    by (metis append_take_drop_id)
  then have "s = take i s @ pat @ drop (length pat) (drop i s)"
    by (metis append_take_drop_id)
  then show ?thesis by (simp add: add.commute)
qed

lemma str_find_None_D: "str_find s pat = None \<Longrightarrow> s \<noteq> pre @ pat @ post"
proof (induction s arbitrary: pre)
  case Nil
  then show ?case by (auto split: if_splits)
next
  case (Cons c s)
  then have nt: "take (length pat) (c # s) \<noteq> pat" and rec: "str_find s pat = None"
    by (auto split: if_splits)
  show ?case
  proof (cases pre)
    case Nil
    then show ?thesis using nt by auto
  next
    case (Cons a pre')
    then show ?thesis using Cons.IH [OF rec, of pre'] by auto
  qed
qed

lemma str_find_found_iff:
  "(\<exists>p. str_find text ('' '' @ label @ '' '') = Some p) \<longleftrightarrow> occurs_spaced label text"
proof
  assume "\<exists>p. str_find text ('' '' @ label @ '' '') = Some p"
  then obtain p where "str_find text ('' '' @ label @ '' '') = Some p" ..
  from str_find_Some_split [OF this] show "occurs_spaced label text"
    unfolding occurs_spaced_def by (metis append.assoc)
next
  assume "occurs_spaced label text"
  then obtain pre post where "text = pre @ ('' '' @ label @ '' '') @ post"
    unfolding occurs_spaced_def by auto
  then have "str_find text ('' '' @ label @ '' '') \<noteq> None"
    using str_find_None_D by blast
  then show "\<exists>p. str_find text ('' '' @ label @ '' '') = Some p" by auto
qed

lemma str_find_None_iff:
  "str_find line ('' '' @ label @ '' '') = None \<longleftrightarrow> \<not> occurs_spaced label line"
  using str_find_found_iff [of line label] by auto

lemma erase_middle:
  "erase (pre @ a # mid @ post) (Suc (length pre)) (length mid) = Inr (pre @ a # post)"
  by (simp add: erase_def)

lemma str_find_spaced_split:
  assumes "str_find s ('' '' @ label @ '' '') = Some p"
  obtains pre post where "s = pre @ '' '' @ label @ '' '' @ post" and "length pre = p"
proof
  show "s = take p s @ '' '' @ label @ '' '' @ drop (p + length ('' '' @ label @ '' '')) s"
    using str_find_Some_split [OF assms] by simp
  show "length (take p s) = p"
    using str_find_Some_D [OF assms] by simp
qed


lemma SeparatorComponent_read_not_found:
  assumes "str_find (buf c) ('' '' @ sep @ '' '') = None"
  shows "SeparatorComponent_read sec opt sep c k =
           (if opt then (None, seekg_end c, k)
            else (Some (Four_C_Throw
                    ''Required parameter '%s' for section '%s' not specified in input file!''
                    [Str sep, Str sec]), c, k))"
  using assms by (simp add: SeparatorComponent_read_def str_def)


lemma occurs_spaced_code:
  "occurs_spaced label line \<longleftrightarrow> str_find line ('' '' @ label @ '' '') \<noteq> None"
  using str_find_None_iff [of line label] by auto

lemmas stream_defs =
  str_def stringstream_of_def erase_def seekg_def seekg_end_def set_str_def tellg_def good_def
  extract_string_def isspace_def remove_value_def size_t_of_def size_t_minus_def Let_def

subsection \<open>Selections\<close>

lemma selection_scan_none:
  "\<forall>v\<in>set vs. str_find s ('' '' @ v @ '' '') = None \<Longrightarrow>
   selection_scan s vs (p, d) = (if vs = [] then p else None, d)"
  by (induction vs arbitrary: p) auto

lemma selection_scan_first:
  "i < length vs \<Longrightarrow> str_find s ('' '' @ vs ! i @ '' '') = Some q \<Longrightarrow>
   \<forall>j<i. str_find s ('' '' @ vs ! j @ '' '') = None \<Longrightarrow>
   selection_scan s vs (p, d) = (Some q, vs ! i)"
proof (induction vs arbitrary: i p)
  case Nil
  then show ?case by simp
next
  case (Cons v vs)
  show ?case
  proof (cases i)
    case 0
    then show ?thesis using Cons.prems by simp
  next
    case (Suc i')
    have "str_find s ('' '' @ v @ '' '') = None"
      using Cons.prems(3) Suc by auto
    moreover have "selection_scan s vs (None, d) = (Some q, vs ! i')"
    proof (rule Cons.IH)
      show "i' < length vs" using Cons.prems(1) Suc by simp
      show "str_find s ('' '' @ vs ! i' @ '' '') = Some q" using Cons.prems(2) Suc by simp
      show "\<forall>j<i'. str_find s ('' '' @ vs ! j @ '' '') = None"
        using Cons.prems(3) Suc by auto
    qed
    ultimately show ?thesis using Suc by simp
  qed
qed

lemma find_index_of_member:
  "v \<in> set xs \<Longrightarrow>
   find_index_of v xs < length xs \<and> xs ! find_index_of v xs = v \<and>
   (\<forall>j<find_index_of v xs. xs ! j \<noteq> v)"
proof (induction xs)
  case Nil
  then show ?case by simp
next
  case (Cons x xs)
  show ?case
  proof (cases "x = v")
    case True
    then show ?thesis by simp
  next
    case False
    then have "v \<in> set xs" using Cons.prems by simp
    from Cons.IH [OF this] False show ?thesis
      by (auto simp: nth_Cons split: nat.splits)
  qed
qed

lemma find_index_of_first:
  assumes "i < length xs" and "\<forall>j<i. xs ! j \<noteq> xs ! i"
  shows "find_index_of (xs ! i) xs = i"
proof -
  have m: "xs ! i \<in> set xs" using assms(1) by simp
  from find_index_of_member [OF m]
  have a: "xs ! find_index_of (xs ! i) xs = xs ! i"
    and b: "\<forall>j<find_index_of (xs ! i) xs. xs ! j \<noteq> xs ! i" by auto
  show ?thesis
  proof (rule ccontr)
    assume "find_index_of (xs ! i) xs \<noteq> i"
    then consider "find_index_of (xs ! i) xs < i" | "i < find_index_of (xs ! i) xs" by linarith
    then show False
    proof cases
      case 1
      then show False using assms(2) a by auto
    next
      case 2
      then show False using b by auto
    qed
  qed
qed

lemma constructed_selection_D:
  assumes "constructed_selection sel"
  shows "defaultvalue sel \<in> set (datfilevalues sel)"
    and "stringtostring sel \<Longrightarrow> length (stringcondvalues sel) = length (datfilevalues sel)"
    and "\<not> stringtostring sel \<Longrightarrow> length (intcondvalues sel) = length (datfilevalues sel)"
proof -
  from assms obtain optional where
    "new_SelectionComponent_string (sel_name sel) (defaultvalue sel) (datfilevalues sel)
       (stringcondvalues sel) optional = Inr sel \<or>
     new_SelectionComponent_int (sel_name sel) (defaultvalue sel) (datfilevalues sel)
       (intcondvalues sel) optional = Inr sel"
    unfolding constructed_selection_def by blast
  then have d: "defaultvalue sel \<in> set (datfilevalues sel) \<and>
      (stringtostring sel \<longrightarrow> length (stringcondvalues sel) = length (datfilevalues sel)) \<and>
      (\<not> stringtostring sel \<longrightarrow> length (intcondvalues sel) = length (datfilevalues sel))"
    unfolding new_SelectionComponent_string_def new_SelectionComponent_int_def
    by (auto split: if_splits) (metis selection.select_convs(6))+
  show "defaultvalue sel \<in> set (datfilevalues sel)" using d by simp
  show "stringtostring sel \<Longrightarrow> length (stringcondvalues sel) = length (datfilevalues sel)"
    using d by simp
  show "\<not> stringtostring sel \<Longrightarrow> length (intcondvalues sel) = length (datfilevalues sel)"
    using d by simp
qed

lemma SelectionComponent_read_payload:
  assumes "erase (buf c) position (length v) = Inr s"
    and "find_index_of v (datfilevalues sel) = i" and "i < length (datfilevalues sel)"
    and "constructed_selection sel"
    and "selection_scan (buf c) (datfilevalues sel) (Some 0, defaultvalue sel) = (found, v)"
    and "position = (case found of None \<Rightarrow> 0 | Some p \<Rightarrow> p + 1)"
  shows "SelectionComponent_read sec sel c k =
           (None, seekg (int position) (set_str s c), k(sel_name sel \<mapsto> payload sel i))"
  using assms constructed_selection_D(2,3) [OF assms(4)]
  by (simp add: SelectionComponent_read_def str_def array_at_def payload_def add_def Let_def)

lemma new_SelectionComponent_fields:
  assumes "new_SelectionComponent_string name dflt labels spayloads optional = Inr sel \<or>
           new_SelectionComponent_int name dflt labels ipayloads optional = Inr sel"
  shows "sel_name sel = name" and "defaultvalue sel = dflt" and "datfilevalues sel = labels"
    and "constructed_selection sel" and "dflt \<in> set labels"
proof -
  from assms consider
      (s) "new_SelectionComponent_string name dflt labels spayloads optional = Inr sel"
    | (i) "new_SelectionComponent_int name dflt labels ipayloads optional = Inr sel"
    by blast
  then have "sel_name sel = name \<and> defaultvalue sel = dflt \<and> datfilevalues sel = labels \<and>
             constructed_selection sel \<and> dflt \<in> set labels"
  proof cases
    case s
    then have f: "sel = \<lparr>sel_name = name, defaultvalue = dflt, datfilevalues = labels,
        stringcondvalues = spayloads, intcondvalues = [- 1], stringtostring = True\<rparr>"
      and m: "dflt \<in> set labels"
      by (auto simp: new_SelectionComponent_string_def split: if_splits)
    have "constructed_selection sel"
      unfolding constructed_selection_def using s f by auto
    then show ?thesis using f m by simp
  next
    case i
    then have f: "sel = \<lparr>sel_name = name, defaultvalue = dflt, datfilevalues = labels,
        stringcondvalues = [''notdefined''], intcondvalues = ipayloads,
        stringtostring = False\<rparr>"
      and m: "dflt \<in> set labels"
      by (auto simp: new_SelectionComponent_int_def split: if_splits)
    have "constructed_selection sel"
      unfolding constructed_selection_def using i f by auto
    then show ?thesis using f m by simp
  qed
  then show "sel_name sel = name" and "defaultvalue sel = dflt" and "datfilevalues sel = labels"
    and "constructed_selection sel" and "dflt \<in> set labels"
    by simp_all
qed

lemma SelectionComponent_read_first_label:
  assumes cs: "constructed_selection sel"
    and i: "i < length (datfilevalues sel)"
    and occ: "occurs_spaced (datfilevalues sel ! i) (buf c)"
    and first: "\<forall>j<i. \<not> occurs_spaced (datfilevalues sel ! j) (buf c)"
  shows "\<exists>c'. SelectionComponent_read sec sel c k = (None, c', k(sel_name sel \<mapsto> payload sel i))"
proof -
  let ?vs = "datfilevalues sel"
  obtain q where q: "str_find (buf c) ('' '' @ ?vs ! i @ '' '') = Some q"
    using occ str_find_found_iff by blast
  have nf: "\<forall>j<i. str_find (buf c) ('' '' @ ?vs ! j @ '' '') = None"
    using first str_find_None_iff by blast
  have scan: "selection_scan (buf c) ?vs (Some 0, defaultvalue sel) = (Some q, ?vs ! i)"
    using selection_scan_first [OF i q nf] .
  obtain pre post where sp: "buf c = pre @ '' '' @ ?vs ! i @ '' '' @ post" and lp: "length pre = q"
    using str_find_spaced_split [OF q] by blast
  have er: "erase (buf c) (q + 1) (length (?vs ! i)) = Inr (pre @ '' '' @ '' '' @ post)"
    using erase_middle [of pre "CHR '' ''" "?vs ! i" "'' '' @ post"] sp lp by simp
  have diff: "\<forall>j<i. ?vs ! j \<noteq> ?vs ! i"
    using first occ by metis
  have idx: "find_index_of (?vs ! i) ?vs = i"
    using find_index_of_first [OF i diff] .
  have "SelectionComponent_read sec sel c k =
          (None, seekg (int (q + 1)) (set_str (pre @ '' '' @ '' '' @ post) c),
           k(sel_name sel \<mapsto> payload sel i))"
    by (rule SelectionComponent_read_payload [OF er idx i cs scan]) simp
  then show ?thesis by blast
qed

lemma SelectionComponent_read_no_label:
  assumes cs: "constructed_selection sel"
    and none: "\<forall>l\<in>set (datfilevalues sel). \<not> occurs_spaced l (buf c)"
  shows "SelectionComponent_read sec sel c k =
           (None, seekg 0 (set_str (drop (length (defaultvalue sel)) (buf c)) c),
            k(sel_name sel \<mapsto> payload sel (find_index_of (defaultvalue sel) (datfilevalues sel))))"
proof -
  let ?vs = "datfilevalues sel" and ?d = "defaultvalue sel"
  have m: "?d \<in> set ?vs" using constructed_selection_D(1) [OF cs] .
  then have ne: "?vs \<noteq> []" by auto
  have nf: "\<forall>v\<in>set ?vs. str_find (buf c) ('' '' @ v @ '' '') = None"
    using none str_find_None_iff by blast
  have scan: "selection_scan (buf c) ?vs (Some 0, ?d) = (None, ?d)"
    using selection_scan_none [OF nf, of "Some 0" ?d] ne by simp
  have er: "erase (buf c) 0 (length ?d) = Inr (drop (length ?d) (buf c))"
    by (simp add: erase_def)
  have idx: "find_index_of ?d ?vs < length ?vs"
    using find_index_of_member [OF m] by simp
  have "SelectionComponent_read sec sel c k =
          (None, seekg (int 0) (set_str (drop (length ?d) (buf c)) c),
           k(sel_name sel \<mapsto> payload sel (find_index_of ?d ?vs)))"
    by (rule SelectionComponent_read_payload [OF er refl idx cs scan]) simp
  then show ?thesis by simp
qed

subsection \<open>Reading the next token\<close>

lemma takeWhile_stop: "ys = [] \<or> \<not> P (hd ys) \<Longrightarrow> takeWhile P ys = []"
  by (cases ys) auto

lemma dropWhile_stop: "ys = [] \<or> \<not> P (hd ys) \<Longrightarrow> dropWhile P ys = ys"
  by (cases ys) auto

lemma takeWhile_all: "list_all P xs \<Longrightarrow> ys = [] \<or> \<not> P (hd ys) \<Longrightarrow> takeWhile P (xs @ ys) = xs"
  by (induction xs) (simp_all add: takeWhile_stop)

lemma dropWhile_all: "list_all P xs \<Longrightarrow> ys = [] \<or> \<not> P (hd ys) \<Longrightarrow> dropWhile P (xs @ ys) = ys"
  by (induction xs) (simp_all add: dropWhile_stop)


lemma hd_token:
  "tok \<noteq> [] \<Longrightarrow> list_all (\<lambda>ch. \<not> isspace ch) tok \<Longrightarrow> \<not> isspace (hd (tok @ rest))"
  by (cases tok) auto

lemma extract_string_next_token:
  assumes "next_token c pre ws tok rest"
  shows "extract_string c s = (tok, c\<lparr>gpos := length pre + length ws + length tok\<rparr>)"
proof -
  from assms have g: "good c" and p: "gpos c = length pre" and b: "buf c = pre @ ws @ tok @ rest"
    and w: "list_all isspace ws" and t: "tok \<noteq> []" "list_all (\<lambda>ch. \<not> isspace ch) tok"
    and r: "rest \<noteq> []" "isspace (hd rest)"
    by (simp_all add: next_token_def)
  have d: "drop (gpos c) (buf c) = ws @ tok @ rest"
    using p b by simp
  have h: "\<not> isspace (hd (tok @ rest))"
    using hd_token [OF t] .
  have tw: "takeWhile isspace (ws @ tok @ rest) = ws"
    using takeWhile_all [OF w, of "tok @ rest"] h by simp
  have dw: "dropWhile isspace (ws @ tok @ rest) = tok @ rest"
    using dropWhile_all [OF w, of "tok @ rest"] h by simp
  have tt: "takeWhile (\<lambda>ch. \<not> isspace ch) (tok @ rest) = tok"
    using takeWhile_all [OF t(2), of rest] r by simp
  have dt: "dropWhile (\<lambda>ch. \<not> isspace ch) (tok @ rest) = rest"
    using dropWhile_all [OF t(2), of rest] r by simp
  have e: "eofbit c = False"
    using g by (simp add: good_def)
  have ne: "tok @ rest \<noteq> []"
    using t by simp
  show ?thesis
    unfolding extract_string_def Let_def d tw dw tt dt
    using g ne r e p by simp
qed

lemma size_t_minus_le: "b \<le> a \<Longrightarrow> size_t_minus a b = a - b"
  by (simp add: size_t_minus_def)

lemma remove_value_next_token:
  assumes "next_token c pre ws tok rest"
  shows "remove_value tok (int (length pre)) (c\<lparr>gpos := length pre + length ws + length tok\<rparr>) =
           (None, c\<lparr>buf := pre @ ws @ rest\<rparr>)"
proof -
  let ?n = "length pre + length ws + length tok"
  let ?c2 = "c\<lparr>gpos := ?n\<rparr>"
  from assms have g: "good c" and p: "gpos c = length pre" and b: "buf c = pre @ ws @ tok @ rest"
    by (simp_all add: next_token_def)
  have e: "eofbit c = False" "failbit c = False"
    using g by (simp_all add: good_def)
  have tg: "tellg ?c2 = (int ?n, ?c2)"
    using g by (simp add: tellg_def good_def)
  have ix: "size_t_minus (size_t_of (int ?n)) (length tok) = length pre + length ws"
    unfolding size_t_of_int by (simp add: size_t_minus_le)
  have st: "str ?c2 = pre @ ws @ tok @ rest"
    using b by (simp add: str_def)
  have er: "erase (pre @ ws @ tok @ rest) (length pre + length ws) (length tok) =
              Inr (pre @ ws @ rest)"
    by (simp add: erase_def)
  have sk: "seekg (int (length pre)) (set_str (pre @ ws @ rest) ?c2) = c\<lparr>buf := pre @ ws @ rest\<rparr>"
    using p e by (simp add: seekg_def set_str_def Let_def)
  show ?thesis
    unfolding remove_value_def tg
    by (simp only: Let_def case_prod_conv ix st er sum.case sk)
qed

lemma next_token_tellg:
  assumes "next_token c pre ws tok rest"
  shows "tellg c = (int (length pre), c)" and "size_t_of (int (length pre)) \<noteq> length (str c)"
  using assms by (simp_all add: next_token_def tellg_def size_t_of_def str_def)

lemma BoolComponent_read_token:
  assumes "next_token c pre ws tok rest"
  shows "BoolComponent_read sec name dflt c k =
           (if tok \<in> set [''Yes'', ''YES'', ''yes'', ''True'', ''TRUE'', ''true''] then
              (None, c\<lparr>buf := pre @ ws @ rest\<rparr>, k(name \<mapsto> VBool True))
            else if tok \<in> set [''No'', ''NO'', ''no'', ''False'', ''FALSE'', ''false''] then
              (None, c\<lparr>buf := pre @ ws @ rest\<rparr>, k(name \<mapsto> VBool False))
            else
              (Some (Four_C_Throw
                 ''Value of parameter '%s' for section '%s' not properly specified in input file!''
                 [Str name, Str sec]),
               c\<lparr>gpos := length pre + length ws + length tok\<rparr>, k))"
  unfolding BoolComponent_read_def next_token_tellg(1) [OF assms]
    extract_string_next_token [OF assms] Let_def case_prod_conv
    remove_value_next_token [OF assms]
  using next_token_tellg(2) [OF assms]
  by (simp add: add_def)




lemma ProcessedComponent_read_token:
  assumes "next_token c pre ws tok rest"
  shows "ProcessedComponent_read sec name f c k =
           (case f tok k of
              Inl e \<Rightarrow> (Some e, c\<lparr>buf := pre @ ws @ rest\<rparr>, k)
            | Inr k' \<Rightarrow> (None, c\<lparr>buf := pre @ ws @ rest\<rparr>, k'))"
proof -
  have t: "tok \<noteq> []" using assms by (simp add: next_token_def)
  show ?thesis
    unfolding ProcessedComponent_read_def next_token_tellg(1) [OF assms]
      extract_string_next_token [OF assms] Let_def case_prod_conv
      remove_value_next_token [OF assms]
    using next_token_tellg(2) [OF assms] t
    by (simp split: sum.splits)
qed











lemmas convert_defs =
  convert_and_validate_int_def convert_and_validate_double_def
  convert_and_validate_string_to_number_def stoi_def sign_length_def negative_def isdigit_def
  isspace_def
  digits_val_def xdigit_val_def throw_error_wrong_data_type_int_def
  throw_error_wrong_data_type_double_def

subsection \<open>Switches and the names in the container\<close>

lemma selection_scan_result:
  "selection_scan s vs (p0, d) = (found, v) \<Longrightarrow>
   (found = p0 \<and> v = d \<and> vs = []) \<or> (found = None \<and> v = d \<and> vs \<noteq> []) \<or>
   (\<exists>q. found = Some q \<and> v \<in> set vs \<and> str_find s ('' '' @ v @ '' '') = Some q)"
proof (induction vs arbitrary: p0)
  case Nil
  then show ?case by simp
next
  case (Cons a vs)
  show ?case
  proof (cases "str_find s ('' '' @ a @ '' '')")
    case None
    then have "selection_scan s vs (None, d) = (found, v)"
      using Cons.prems by simp
    from Cons.IH [OF this] show ?thesis by auto
  next
    case (Some q)
    then show ?thesis using Cons.prems by auto
  qed
qed

lemma SelectionComponent_read_constructed:
  assumes cs: "constructed_selection sel"
  shows "\<exists>c' i. i < length (datfilevalues sel) \<and>
           SelectionComponent_read sec sel c k = (None, c', k(sel_name sel \<mapsto> payload sel i))"
proof -
  let ?vs = "datfilevalues sel" and ?d = "defaultvalue sel"
  have m: "?d \<in> set ?vs" using constructed_selection_D(1) [OF cs] .
  obtain found v where scan: "selection_scan (buf c) ?vs (Some 0, ?d) = (found, v)"
    by (cases "selection_scan (buf c) ?vs (Some 0, ?d)")
  from selection_scan_result [OF scan] m
  have v: "v \<in> set ?vs"
    and pos: "found = None \<or> (\<exists>q. found = Some q \<and> str_find (buf c) ('' '' @ v @ '' '') = Some q)"
    by auto
  define position where "position = (case found of None \<Rightarrow> 0 | Some p \<Rightarrow> p + 1)"
  have "position \<le> length (buf c)"
  proof (cases found)
    case None
    then show ?thesis by (simp add: position_def)
  next
    case (Some q)
    then have "str_find (buf c) ('' '' @ v @ '' '') = Some q" using pos by auto
    from str_find_Some_D [OF this] show ?thesis using Some by (simp add: position_def)
  qed
  then obtain s where er: "erase (buf c) position (length v) = Inr s"
    by (auto simp: erase_def)
  have idx: "find_index_of v ?vs < length ?vs"
    using find_index_of_member [OF v] by simp
  have "SelectionComponent_read sec sel c k =
          (None, seekg (int position) (set_str s c),
           k(sel_name sel \<mapsto> payload sel (find_index_of v ?vs)))"
    by (rule SelectionComponent_read_payload [OF er refl idx cs scan]) (simp add: position_def)
  then show ?thesis using idx by blast
qed


lemma SeparatorComponent_read_container:
  "SeparatorComponent_read sec opt sep c k = (e, c', k') \<Longrightarrow> k' = k"
  by (auto simp: SeparatorComponent_read_def Let_def split: option.splits sum.splits if_splits)

lemma StringComponent_read_container:
  "StringComponent_read sec name d c k = (e, c', k') \<Longrightarrow>
   (e \<noteq> None \<and> k' = k) \<or> (e = None \<and> (\<exists>v. k' = k(name \<mapsto> v)))"
  by (auto simp: StringComponent_read_def add_def split: prod.splits if_splits option.splits)

lemma SelectionComponent_read_container:
  "SelectionComponent_read sec sel c k = (e, c', k') \<Longrightarrow>
   (e \<noteq> None \<and> k' = k) \<or> (e = None \<and> (\<exists>v. k' = k(sel_name sel \<mapsto> v)))"
  by (auto simp: SelectionComponent_read_def add_def Let_def
      split: prod.splits if_splits option.splits sum.splits)

lemma IntComponent_read_container:
  "IntComponent_read sec name opt d c k = (e, c', k') \<Longrightarrow>
   (e \<noteq> None \<and> k' = k) \<or> (e = None \<and> (\<exists>v. k' = k(name \<mapsto> v)))"
  by (auto simp: IntComponent_read_def add_def
      split: prod.splits if_splits option.splits sum.splits)

lemma RealComponent_read_container:
  "RealComponent_read sec name opt d c k = (e, c', k') \<Longrightarrow>
   (e \<noteq> None \<and> k' = k) \<or> (e = None \<and> (\<exists>v. k' = k(name \<mapsto> v)))"
  by (auto simp: RealComponent_read_def add_def
      split: prod.splits if_splits option.splits sum.splits)

lemma BoolComponent_read_container:
  "BoolComponent_read sec name d c k = (e, c', k') \<Longrightarrow>
   (e \<noteq> None \<and> k' = k) \<or> (e = None \<and> (\<exists>v. k' = k(name \<mapsto> v)))"
proof -
  assume a: "BoolComponent_read sec name d c k = (e, c', k')"
  obtain position c1 where t: "tellg c = (position, c1)" by (cases "tellg c")
  obtain s c2 where x: "extract_string c1 [] = (s, c2)" by (cases "extract_string c1 []")
  obtain r c3 where rv: "remove_value s position c2 = (r, c3)"
    by (cases "remove_value s position c2")
  from BoolComponent_read_shape [OF t x rv, of sec name d k] a
  show ?thesis by (auto simp: add_def split: if_splits sum.splits option.splits)
qed

lemma IntVectorComponent_read_container:
  "IntVectorComponent_read sec name opt len d c k = (e, c', k') \<Longrightarrow>
   (e \<noteq> None \<and> k' = k) \<or> (e = None \<and> (\<exists>v. k' = k(name \<mapsto> v)))"
  by (auto simp: IntVectorComponent_read_def add_def
      split: prod.splits if_splits option.splits sum.splits)

lemma RealVectorComponent_read_container:
  "RealVectorComponent_read sec name opt len d c k = (e, c', k') \<Longrightarrow>
   (e \<noteq> None \<and> k' = k) \<or> (e = None \<and> (\<exists>v. k' = k(name \<mapsto> v)))"
  by (auto simp: RealVectorComponent_read_def add_def
      split: prod.splits if_splits option.splits sum.splits)

lemma read_dom:
  shows "no_processed cmp \<Longrightarrow> read sec cmp c k = (e, c', k') \<Longrightarrow>
         dom k \<subseteq> dom k' \<and> (e = None \<longrightarrow> (\<forall>n. stores_under cmp = Some n \<longrightarrow> n \<in> dom k'))"
    and "list_all no_processed cmps \<Longrightarrow> read_all sec cmps c k = (e, c', k') \<Longrightarrow>
         dom k \<subseteq> dom k' \<and>
         (e = None \<longrightarrow> (\<forall>x\<in>set cmps. \<forall>n. stores_under x = Some n \<longrightarrow> n \<in> dom k'))"
proof (induction sec cmp c k and sec cmps c k arbitrary: e c' k' and e c' k'
    rule: read_read_all.induct)
  case (1 section_name optional separator description condline container)
  then show ?case using SeparatorComponent_read_container by fastforce
next
  case (2 section_name name optional dflt condline container)
  then show ?case using StringComponent_read_container by fastforce
next
  case (3 section_name sel condline container)
  then show ?case using SelectionComponent_read_container by fastforce
next
  case (4 section_name name optional default_value condline container)
  then show ?case using IntComponent_read_container by fastforce
next
  case (5 section_name name optional len default_value condline container)
  then show ?case using IntVectorComponent_read_container by fastforce
next
  case (6 section_name name optional default_value condline container)
  then show ?case using RealComponent_read_container by fastforce
next
  case (7 section_name name optional len default_value condline container)
  then show ?case using RealVectorComponent_read_container by fastforce
next
  case (8 section_name name optional dflt condline container)
  then show ?case using BoolComponent_read_container by fastforce
next
  case (9 section_name name default_key choices component_for_key condline container)
  obtain e1 c1 k1 where sel:
      "SelectionComponent_read section_name component_for_key condline container = (e1, c1, k1)"
    by (cases "SelectionComponent_read section_name component_for_key condline container")
  from SelectionComponent_read_container [OF sel]
  have d1: "dom container \<subseteq> dom k1"
    and n1: "e1 = None \<Longrightarrow> sel_name component_for_key \<in> dom k1"
    by auto
  show ?case
  proof (cases e1)
    case (Some err)
    then show ?thesis using "9.prems"(2) sel d1 by auto
  next
    case None
    show ?thesis
    proof (cases "get_int k1 (sel_name component_for_key)")
      case (Inl err)
      then show ?thesis using "9.prems"(2) sel None d1 by auto
    next
      case (Inr key)
      show ?thesis
      proof (cases "map_of choices key")
        case None': None
        then show ?thesis using "9.prems"(2) sel None Inr d1 by auto
      next
        case (Some choice)
        have ra: "read_all section_name (snd choice) c1 k1 = (e, c', k')"
          using "9.prems"(2) sel None Inr Some by simp
        have "(key, choice) \<in> set choices"
          using Some by (rule map_of_SomeD)
        then have np: "list_all no_processed (snd choice)"
          using "9.prems"(1) by (force simp: list_all_iff)
        have "dom k1 \<subseteq> dom k'"
          using "9.IH" [of None "(c1, k1)" c1 k1 key choice e c' k'] sel None Inr Some np ra
          by simp
        then have "dom container \<subseteq> dom k'" and "sel_name component_for_key \<in> dom k'"
          using d1 n1 [OF None] by blast+
        then show ?thesis by simp
      qed
    qed
  qed
next
  case (10 section_name name optional insert_operation condline container)
  then show ?case by simp
next
  case (11 section_name condline container)
  then show ?case by simp
next
  case (12 section_name component components condline container)
  obtain e1 c1 k1 where r: "read section_name component condline container = (e1, c1, k1)"
    by (cases "read section_name component condline container")
  have np: "no_processed component" "list_all no_processed components"
    using "12.prems"(1) by simp_all
  from "12.IH"(1) [OF np(1) r]
  have d1: "dom container \<subseteq> dom k1"
    and n1: "e1 = None \<Longrightarrow> \<forall>n. stores_under component = Some n \<longrightarrow> n \<in> dom k1"
    by auto
  show ?case
  proof (cases e1)
    case (Some err)
    then show ?thesis using "12.prems"(2) r d1 by auto
  next
    case None
    have ra: "read_all section_name components c1 k1 = (e, c', k')"
      using "12.prems"(2) r None by simp
    from "12.IH"(2) [of None "(c1, k1)" c1 k1 e c' k'] r None np(2) ra
    have d2: "dom k1 \<subseteq> dom k'"
      and n2: "e = None \<Longrightarrow> \<forall>x\<in>set components. \<forall>n. stores_under x = Some n \<longrightarrow> n \<in> dom k'"
      by auto
    have a: "dom container \<subseteq> dom k'"
      using d1 d2 by blast
    have b: "\<forall>n. stores_under component = Some n \<longrightarrow> n \<in> dom k'"
      using n1 [OF None] d2 by blast
    show ?thesis using a b n2 by simp
  qed
qed


lemma new_SwitchComponent_D:
  assumes "new_SwitchComponent name default_key choices = Inr sw"
  obtains component_for_key choices' where
    "sw = SwitchComponent name default_key choices' component_for_key"
    "constructed_selection component_for_key"
    "sel_name component_for_key = name"
    "length (datfilevalues component_for_key) = length choices"
    "\<And>i. payload component_for_key i = VInt (map fst choices ! i)"
    "\<And>key. map_of choices key \<noteq> None \<Longrightarrow> map_of choices' key = map_of choices key"
proof -
  define default_label where
    "default_label = (case map_of choices default_key of None \<Rightarrow> [] | Some choice \<Rightarrow> fst choice)"
  define choices' where
    "choices' = (case map_of choices default_key of
                   None \<Rightarrow> choices @ [(default_key, ([], []))] | Some _ \<Rightarrow> choices)"
  obtain cfk where
    c: "new_SelectionComponent_int name default_label (map (\<lambda>choice. fst (snd choice)) choices)
          (map fst choices) False = Inr cfk"
    and sw: "sw = SwitchComponent name default_key choices' cfk"
    using assms
    by (auto simp: new_SwitchComponent_def Let_def default_label_def choices'_def
        split: sum.splits)
  have f: "cfk = \<lparr>sel_name = name, defaultvalue = default_label,
      datfilevalues = map (\<lambda>choice. fst (snd choice)) choices,
      stringcondvalues = [''notdefined''], intcondvalues = map fst choices,
      stringtostring = False\<rparr>"
    using c by (auto simp: new_SelectionComponent_int_def split: if_splits)
  have cs: "constructed_selection cfk"
    unfolding constructed_selection_def using c f by auto
  have m: "\<And>key. map_of choices key \<noteq> None \<Longrightarrow> map_of choices' key = map_of choices key"
    by (auto simp: choices'_def map_add_def split: option.splits)
  show ?thesis
  proof (rule that [OF sw cs])
    show "sel_name cfk = name" using f by simp
    show "length (datfilevalues cfk) = length choices" using f by simp
    show "\<And>i. payload cfk i = VInt (map fst choices ! i)" using f by (simp add: payload_def)
    show "\<And>key. map_of choices key \<noteq> None \<Longrightarrow> map_of choices' key = map_of choices key"
      using m .
  qed
qed

subsection \<open>Printing and reading an integer\<close>




lemma isdigit_plain: "isdigit c \<Longrightarrow> \<not> isspace c \<and> c \<noteq> CHR ''-'' \<and> c \<noteq> CHR ''+''"
  by (auto simp: isdigit_def isspace_def)







subsection \<open>Reading a rendered line\<close>










subsection \<open>A number followed by other characters\<close>

lemma isdigit_tolower:
  assumes "isdigit c"
  shows "tolower c = c \<and> c \<noteq> CHR ''x'' \<and> c \<noteq> CHR ''i'' \<and> c \<noteq> CHR ''n'' \<and> c \<noteq> CHR ''.''"
proof -
  from assms have "c = CHR ''0'' \<or> c = CHR ''1'' \<or> c = CHR ''2'' \<or> c = CHR ''3'' \<or> c = CHR ''4'' \<or>
      c = CHR ''5'' \<or> c = CHR ''6'' \<or> c = CHR ''7'' \<or> c = CHR ''8'' \<or> c = CHR ''9''"
    by (simp add: isdigit_def)
  then show ?thesis
    by (elim disjE) (simp_all add: tolower_def)
qed

lemma stoi_digits_rest:
  assumes "ds \<noteq> []" and "list_all isdigit ds" and "rest = [] \<or> \<not> isdigit (hd rest)"
    and "digits_val 10 ds < 2 ^ 31" and "0 \<le> digits_val 10 ds"
  shows "stoi (ds @ rest) = Inr (digits_val 10 ds, length ds)"
proof -
  obtain c cs where d: "ds = c # cs" using assms(1) by (cases ds) auto
  have c: "\<not> isspace c" "c \<noteq> CHR ''-''" "c \<noteq> CHR ''+''"
    using assms(2) d isdigit_plain by auto
  have tw: "takeWhile isdigit (ds @ rest) = ds"
    using takeWhile_all [OF assms(2,3)] .
  have sl: "sign_length (ds @ rest) = 0" "negative (ds @ rest) = False"
    using c d by (simp_all add: sign_length_def negative_def)
  have ws: "takeWhile isspace (ds @ rest) = []" "dropWhile isspace (ds @ rest) = ds @ rest"
    using c d by simp_all
  show ?thesis
    unfolding stoi_def Let_def ws sl drop_0 tw
    using assms(1,4,5) by simp
qed

lemma stoi_minus_digits_rest:
  assumes "ds \<noteq> []" and "list_all isdigit ds" and "rest = [] \<or> \<not> isdigit (hd rest)"
    and "digits_val 10 ds \<le> 2 ^ 31" and "0 \<le> digits_val 10 ds"
  shows "stoi (CHR ''-'' # ds @ rest) = Inr (- digits_val 10 ds, Suc (length ds))"
proof -
  have s: "\<not> isspace CHR ''-''" by (simp add: isspace_def)
  have tw: "takeWhile isdigit (ds @ rest) = ds"
    using takeWhile_all [OF assms(2,3)] .
  have sl: "sign_length (CHR ''-'' # ds @ rest) = 1" "negative (CHR ''-'' # ds @ rest) = True"
    by (simp_all add: sign_length_def negative_def)
  have ws: "takeWhile isspace (CHR ''-'' # ds @ rest) = []"
    "dropWhile isspace (CHR ''-'' # ds @ rest) = CHR ''-'' # ds @ rest"
    using s by simp_all
  have dr: "drop 1 (CHR ''-'' # ds @ rest) = ds @ rest"
    by simp
  show ?thesis
    unfolding stoi_def Let_def ws sl dr tw
    using assms(1,4,5) by simp
qed

lemma digits_val_nonneg: "0 \<le> digits_val 10 ds"
proof -
  have "\<And>a. 0 \<le> a \<Longrightarrow> 0 \<le> foldl (\<lambda>a c. a * 10 + int (xdigit_val c)) a ds"
    by (induction ds) simp_all
  then show ?thesis by (simp add: digits_val_def)
qed

lemma decimal_body_point:
  assumes ipart: "ipart \<noteq> []" "list_all isdigit ipart" and fpart: "list_all isdigit fpart"
    and r: "rest = [] \<or> (\<not> isdigit (hd rest) \<and> hd rest \<noteq> CHR ''e'' \<and> hd rest \<noteq> CHR ''E'')"
  shows "decimal_body (ipart @ ''.'' @ fpart @ rest) =
           Some (of_int (digits_val 10 (ipart @ fpart)) / 10 ^ length fpart, length ipart + 1 + length fpart)"
proof -
  have nd: "\<not> isdigit CHR ''.''"
    by (simp add: isdigit_def)
  have tw1: "takeWhile isdigit (ipart @ ''.'' @ fpart @ rest) = ipart"
    using takeWhile_all [OF ipart(2), of "''.'' @ fpart @ rest"] nd by simp
  have dw1: "dropWhile isdigit (ipart @ ''.'' @ fpart @ rest) = ''.'' @ fpart @ rest"
    using dropWhile_all [OF ipart(2), of "''.'' @ fpart @ rest"] nd by simp
  have tw2: "takeWhile isdigit (fpart @ rest) = fpart"
    using takeWhile_all [OF fpart, of rest] r by blast
  have dr: "drop (length ipart + 1 + length fpart) (ipart @ ''.'' @ fpart @ rest) = rest"
    by simp
  have ex: "exponent_part ''eE'' rest = (0, 0)"
    using r by (cases rest) (auto simp: exponent_part_def)
  have sc: "scale m 10 (0 - int (length fpart)) = m / 10 ^ length fpart" for m
    by (cases "length fpart = 0") (simp_all add: scale_def)
  have ne: "ipart @ fpart \<noteq> []"
    using ipart(1) by simp
  show ?thesis
    unfolding decimal_body_def Let_def tw1 dw1
    using tw2 dr ex sc ne by simp
qed

lemma stod_body_point:
  assumes ipart: "ipart \<noteq> []" "list_all isdigit ipart" and fpart: "list_all isdigit fpart"
    and r: "rest = [] \<or> (\<not> isdigit (hd rest) \<and> hd rest \<noteq> CHR ''e'' \<and> hd rest \<noteq> CHR ''E'')"
  shows "stod_body (ipart @ ''.'' @ fpart @ rest) =
           Some (Finite (of_int (digits_val 10 (ipart @ fpart)) / 10 ^ length fpart),
                 length ipart + 1 + length fpart)"
proof -
  define s where "s = ipart @ ''.'' @ fpart @ rest"
  obtain c cs where c: "ipart = c # cs" using ipart(1) by (cases ipart) auto
  have cd: "tolower c = c" "c \<noteq> CHR ''x''" "c \<noteq> CHR ''i''" "c \<noteq> CHR ''n''"
    using isdigit_tolower [of c] ipart(2) c by simp_all
  have s0: "s = c # cs @ ''.'' @ fpart @ rest"
    by (simp add: s_def c)
  have i8: "map tolower (take 8 s) \<noteq> ''infinity''"
    and i3: "map tolower (take 3 s) \<noteq> ''inf''"
    and n3: "map tolower (take 3 s) \<noteq> ''nan''"
    using cd by (simp_all add: s0)
  have x2: "map tolower (take 2 s) \<noteq> ''0x''"
  proof (cases cs)
    case Nil
    then show ?thesis by (simp add: s0 tolower_def)
  next
    case (Cons e es)
    then have "isdigit e" using ipart(2) c by simp
    then show ?thesis using isdigit_tolower [of e] Cons by (simp add: s0)
  qed
  have hx: "hex_body s = None"
    using x2 by (simp add: hex_body_def)
  have db: "decimal_body s =
           Some (of_int (digits_val 10 (ipart @ fpart)) / 10 ^ length fpart, length ipart + 1 + length fpart)"
    unfolding s_def using decimal_body_point [OF ipart fpart r] .
  have "stod_body s =
           Some (Finite (of_int (digits_val 10 (ipart @ fpart)) / 10 ^ length fpart),
                 length ipart + 1 + length fpart)"
    unfolding stod_body_def using i8 i3 n3 hx db by simp
  then show ?thesis by (simp add: s_def)
qed

lemma stod_point:
  assumes ipart: "ipart \<noteq> []" "list_all isdigit ipart" and fpart: "list_all isdigit fpart"
    and r: "rest = [] \<or> (\<not> isdigit (hd rest) \<and> hd rest \<noteq> CHR ''e'' \<and> hd rest \<noteq> CHR ''E'')"
    and o: "\<not> overflows (Finite (of_int (digits_val 10 (ipart @ fpart)) / 10 ^ length fpart))"
    and u: "\<not> underflows (Finite (of_int (digits_val 10 (ipart @ fpart)) / 10 ^ length fpart))"
  shows "stod (ipart @ ''.'' @ fpart @ rest) =
           Inr (Finite (of_int (digits_val 10 (ipart @ fpart)) / 10 ^ length fpart),
                length ipart + 1 + length fpart)"
proof -
  define s where "s = ipart @ ''.'' @ fpart @ rest"
  obtain c cs where c: "ipart = c # cs" using ipart(1) by (cases ipart) auto
  have cd: "\<not> isspace c" "c \<noteq> CHR ''-''" "c \<noteq> CHR ''+''"
    using isdigit_plain [of c] ipart(2) c by simp_all
  have s0: "s = c # cs @ ''.'' @ fpart @ rest"
    by (simp add: s_def c)
  have ws: "takeWhile isspace s = []" "dropWhile isspace s = s"
    using cd by (simp_all add: s0)
  have sl: "sign_length s = 0" "negative s = False"
    using cd by (simp_all add: s0 sign_length_def negative_def)
  have sb: "stod_body s =
           Some (Finite (of_int (digits_val 10 (ipart @ fpart)) / 10 ^ length fpart),
                 length ipart + 1 + length fpart)"
    unfolding s_def using stod_body_point [OF ipart fpart r] .
  have "stod s =
           Inr (Finite (of_int (digits_val 10 (ipart @ fpart)) / 10 ^ length fpart),
                length ipart + 1 + length fpart)"
    unfolding stod_def Let_def ws sl drop_0 sb using o u by simp
  then show ?thesis by (simp add: s_def)
qed

lemma digits_val_examples: "digits_val 10 ''12'' = 12" "digits_val 10 ''314'' = 314"
  by code_simp+

section \<open>Numeric conversion: leftover characters\<close>

text \<open>
  Claim C5. When \<^verbatim>\<open>stoi\<close> (for an integer field) or \<^verbatim>\<open>stod\<close> (for a real field)
  converts a prefix of the token and stops before its end, the conversion fails with the
  error of \<^verbatim>\<open>throw_error_wrong_data_type\<close>: it reports the characters left over, the
  name of the variable, the name of the section and the value converted so far, and says
  that the variable has to be an integer, or has to be a floating point. For an integer
  field the prefix is the digits \<open>ds\<close> of a token \<open>ds @ rest\<close> or \<open>-ds @ rest\<close> whose
  rest starts with another character, the value is the number that the digits denote (a
  32-bit \<^verbatim>\<open>int\<close>), and the leftover is \<open>rest\<close>. For a real field and a token
  \<open>ipart.fpart @ rest\<close> of digits, a point, digits and a rest that starts with neither a
  digit nor an exponent marker, the value is the decimal number \<open>ipart.fpart\<close> (one that
  \<^verbatim>\<open>stod\<close> does not report as out of range), and the leftover is \<open>rest\<close>. The real token
  \<^verbatim>\<open>3.14abc\<close> fails in this way with the leftover \<^verbatim>\<open>abc\<close> and the value 3.14.
\<close>

theorem trailing_garbage:
  "(stoi snumber = Inr (number, pos) \<and> pos \<noteq> length snumber \<longrightarrow>
      convert_and_validate_int snumber variablename sectionname variablelength optional =
        Inl (Four_C_Throw
          (''Failed to read value '%s' while reading variable '%s' in '%s'. 4C could only read '' @
           '''%d', so the specified number format is probably not supported. The variable '%s' '' @
           ''has to be an integer.'')
          [Str (drop pos snumber), Str variablename, Str sectionname, Dec number,
           Str variablename])) \<and>
   (stod snumber = Inr (real_number, pos) \<and> pos \<noteq> length snumber \<longrightarrow>
      convert_and_validate_double snumber variablename sectionname variablelength optional =
        Inl (Four_C_Throw
          (''Failed to read value '%s' while reading variable '%s' in '%s'. 4C could only read '' @
           '''%f', so the specified number format is probably not supported. The variable '%s' '' @
           ''has to be a floating point.'')
          [Str (drop pos snumber), Str variablename, Str sectionname, Flt real_number,
           Str variablename])) \<and>
   (ds \<noteq> [] \<and> list_all isdigit ds \<and> rest \<noteq> [] \<and> \<not> isdigit (hd rest) \<longrightarrow>
      (digits_val 10 ds < 2 ^ 31 \<longrightarrow>
         convert_and_validate_int (ds @ rest) variablename sectionname variablelength optional =
           Inl (throw_error_wrong_data_type_int rest (digits_val 10 ds) variablename
                  sectionname)) \<and>
      (digits_val 10 ds \<le> 2 ^ 31 \<longrightarrow>
         convert_and_validate_int (''-'' @ ds @ rest) variablename sectionname variablelength
             optional =
           Inl (throw_error_wrong_data_type_int rest (- digits_val 10 ds) variablename
                  sectionname))) \<and>
   (ipart \<noteq> [] \<and> list_all isdigit ipart \<and> list_all isdigit fpart \<and> rest \<noteq> [] \<and>
    \<not> isdigit (hd rest) \<and> hd rest \<noteq> CHR ''e'' \<and> hd rest \<noteq> CHR ''E'' \<and>
    \<not> overflows (Finite (of_int (digits_val 10 (ipart @ fpart)) / 10 ^ length fpart)) \<and>
    \<not> underflows (Finite (of_int (digits_val 10 (ipart @ fpart)) / 10 ^ length fpart)) \<longrightarrow>
      convert_and_validate_double (ipart @ ''.'' @ fpart @ rest) variablename sectionname variablelength
          optional =
        Inl (throw_error_wrong_data_type_double rest
               (Finite (of_int (digits_val 10 (ipart @ fpart)) / 10 ^ length fpart)) variablename
               sectionname)) \<and>
   convert_and_validate_double ''3.14abc'' variablename sectionname variablelength optional =
     Inl (throw_error_wrong_data_type_double ''abc'' (Finite (314 / 100)) variablename sectionname)"
proof (intro conjI impI)
  assume "stoi snumber = Inr (number, pos) \<and> pos \<noteq> length snumber"
  then show "convert_and_validate_int snumber variablename sectionname variablelength optional =
        Inl (Four_C_Throw
          (''Failed to read value '%s' while reading variable '%s' in '%s'. 4C could only read '' @
           '''%d', so the specified number format is probably not supported. The variable '%s' '' @
           ''has to be an integer.'')
          [Str (drop pos snumber), Str variablename, Str sectionname, Dec number,
           Str variablename])"
    by (simp add: convert_and_validate_int_def convert_and_validate_string_to_number_def
        throw_error_wrong_data_type_int_def)
next
  assume "stod snumber = Inr (real_number, pos) \<and> pos \<noteq> length snumber"
  then show "convert_and_validate_double snumber variablename sectionname variablelength optional =
        Inl (Four_C_Throw
          (''Failed to read value '%s' while reading variable '%s' in '%s'. 4C could only read '' @
           '''%f', so the specified number format is probably not supported. The variable '%s' '' @
           ''has to be a floating point.'')
          [Str (drop pos snumber), Str variablename, Str sectionname, Flt real_number,
           Str variablename])"
    by (simp add: convert_and_validate_double_def convert_and_validate_string_to_number_def
        throw_error_wrong_data_type_double_def)
next
  assume a: "ds \<noteq> [] \<and> list_all isdigit ds \<and> rest \<noteq> [] \<and> \<not> isdigit (hd rest)"
    and b: "digits_val 10 ds < 2 ^ 31"
  have "stoi (ds @ rest) = Inr (digits_val 10 ds, length ds)"
    using stoi_digits_rest [of ds rest] a b digits_val_nonneg by simp
  then show "convert_and_validate_int (ds @ rest) variablename sectionname variablelength optional =
           Inl (throw_error_wrong_data_type_int rest (digits_val 10 ds) variablename sectionname)"
    using a by (simp add: convert_and_validate_int_def convert_and_validate_string_to_number_def)
next
  assume a: "ds \<noteq> [] \<and> list_all isdigit ds \<and> rest \<noteq> [] \<and> \<not> isdigit (hd rest)"
    and b: "digits_val 10 ds \<le> 2 ^ 31"
  have "stoi (''-'' @ ds @ rest) = Inr (- digits_val 10 ds, Suc (length ds))"
    using stoi_minus_digits_rest [of ds rest] a b digits_val_nonneg by simp
  then show "convert_and_validate_int (''-'' @ ds @ rest) variablename sectionname variablelength
             optional =
           Inl (throw_error_wrong_data_type_int rest (- digits_val 10 ds) variablename sectionname)"
    using a by (simp add: convert_and_validate_int_def convert_and_validate_string_to_number_def)
next
  assume a: "ipart \<noteq> [] \<and> list_all isdigit ipart \<and> list_all isdigit fpart \<and> rest \<noteq> [] \<and>
    \<not> isdigit (hd rest) \<and> hd rest \<noteq> CHR ''e'' \<and> hd rest \<noteq> CHR ''E'' \<and>
    \<not> overflows (Finite (of_int (digits_val 10 (ipart @ fpart)) / 10 ^ length fpart)) \<and>
    \<not> underflows (Finite (of_int (digits_val 10 (ipart @ fpart)) / 10 ^ length fpart))"
  have "stod (ipart @ ''.'' @ fpart @ rest) =
           Inr (Finite (of_int (digits_val 10 (ipart @ fpart)) / 10 ^ length fpart),
                length ipart + 1 + length fpart)"
    using stod_point [of ipart fpart rest] a by simp
  then show "convert_and_validate_double (ipart @ ''.'' @ fpart @ rest) variablename sectionname
          variablelength optional =
        Inl (throw_error_wrong_data_type_double rest
               (Finite (of_int (digits_val 10 (ipart @ fpart)) / 10 ^ length fpart)) variablename
               sectionname)"
    using a by (simp add: convert_and_validate_double_def convert_and_validate_string_to_number_def)
next
  show "convert_and_validate_double ''3.14abc'' variablename sectionname variablelength optional =
     Inl (throw_error_wrong_data_type_double ''abc'' (Finite (314 / 100)) variablename sectionname)"
    using stod_example
    by (simp add: convert_and_validate_double_def convert_and_validate_string_to_number_def)
qed

theorem trailing_garbage_witness:
  "stoi ''12abc'' = Inr (12, 2) \<and> 2 \<noteq> length ''12abc'' \<and>
   convert_and_validate_int ''12abc'' ''NUMDOF'' ''SEC'' 1 False =
     Inl (throw_error_wrong_data_type_int ''abc'' 12 ''NUMDOF'' ''SEC'') \<and>
   stod ''3.14abc'' = Inr (Finite (314 / 100), 4) \<and> 4 \<noteq> length ''3.14abc'' \<and>
   convert_and_validate_double ''3.14abc'' ''VAL'' ''SEC'' 1 False =
     Inl (throw_error_wrong_data_type_double ''abc'' (Finite (314 / 100)) ''VAL'' ''SEC'') \<and>
   list_all isdigit ''12'' \<and> \<not> isdigit (hd ''abc'') \<and> digits_val 10 ''12'' < 2 ^ 31 \<and>
   convert_and_validate_int ''-12abc'' ''NUMDOF'' ''SEC'' 1 False =
     Inl (throw_error_wrong_data_type_int ''abc'' (- 12) ''NUMDOF'' ''SEC'') \<and>
   list_all isdigit ''3'' \<and> list_all isdigit ''14'' \<and>
   \<not> overflows (Finite (314 / 100)) \<and> \<not> underflows (Finite (314 / 100))"
proof -
  have i: "list_all isdigit ''12''" "\<not> isdigit (hd ''abc'')" "list_all isdigit ''3''"
    "list_all isdigit ''14''" "hd ''abc'' \<noteq> CHR ''e''" "hd ''abc'' \<noteq> CHR ''E''"
    by (simp_all add: isdigit_def)
  have r: "\<not> overflows (Finite (314 / 100))" "\<not> underflows (Finite (314 / 100))"
    by (simp_all add: not_overflows_small not_underflows_large)
  show ?thesis
    using stoi_example stod_example i r digits_val_examples
      trailing_garbage [where snumber = "''12abc''" and number = 12 and pos = 2
        and variablename = "''NUMDOF''" and sectionname = "''SEC''" and variablelength = 1
        and optional = False and ds = "''12''" and rest = "''abc''" and ipart = "''3''"
        and fpart = "''14''" and real_number = "Finite (314 / 100)"]
      trailing_garbage [where snumber = "''3.14abc''" and real_number = "Finite (314 / 100)"
        and pos = 4 and variablename = "''VAL''" and sectionname = "''SEC''"
        and variablelength = 1 and optional = False and ds = "''12''" and rest = "''abc''"
        and ipart = "''3''" and fpart = "''14''" and number = 12]
    by (simp add: throw_error_wrong_data_type_int_def throw_error_wrong_data_type_double_def)
qed

section \<open>Optional scalars with nothing left to read\<close>

text \<open>
  Claim C7. The code does not do this when blanks are all that is left. The test of
  \<^verbatim>\<open>IntComponent::read\<close> and \<^verbatim>\<open>RealComponent::read\<close> for something to read is that the
  position differs from the length of the text, so both extract a token, which fails and
  sets \<^verbatim>\<open>eofbit\<close> and \<^verbatim>\<open>failbit\<close>. \<^verbatim>\<open>IntComponent::read\<close> skips the conversion of
  the empty token of an optional field, but runs the two statements that remove the token
  all the same: \<^verbatim>\<open>tellg()\<close> is \<open>-1\<close> now, the index of \<^verbatim>\<open>erase\<close> wraps around, and
  \<^verbatim>\<open>std::out_of_range\<close> is thrown. \<^verbatim>\<open>RealComponent::read\<close> has these statements
  inside the guard: it returns and stores the default, and leaves the stream at the end of
  the text, failed. The third statement is a line whose last value is followed by a blank,
  read by a separator, its value and an optional integer.
\<close>

theorem optional_scalar_blanks_left:
  "read ''SEC'' (IntComponent ''OPT'' True 7) (stringstream_of '' '') Map.empty =
     (Some (Std_out_of_range ''basic_string::erase''),
      \<lparr>buf = '' '', gpos = 1, eofbit = True, failbit = True\<rparr>, Map.empty) \<and>
   read ''SEC'' (RealComponent ''OPT'' True (Finite 7)) (stringstream_of '' '') Map.empty =
     (None, \<lparr>buf = '' '', gpos = 1, eofbit = True, failbit = True\<rparr>,
      [''OPT'' \<mapsto> VReal (Finite 7)]) \<and>
   read_all ''SEC''
       [SeparatorComponent False ''NUMDOF'' [], IntComponent ''NUMDOF'' False 0,
        IntComponent ''OPT'' True 7]
       (stringstream_of '' NUMDOF 3 '') Map.empty =
     (Some (Std_out_of_range ''basic_string::erase''),
      \<lparr>buf = ''   '', gpos = 3, eofbit = True, failbit = True\<rparr>, [''NUMDOF'' \<mapsto> VInt 3])"
proof (intro conjI)
  show "read ''SEC'' (IntComponent ''OPT'' True 7) (stringstream_of '' '') Map.empty =
     (Some (Std_out_of_range ''basic_string::erase''),
      \<lparr>buf = '' '', gpos = 1, eofbit = True, failbit = True\<rparr>, Map.empty)"
    by (simp add: IntComponent_read_def add_def stream_defs)
  show "read ''SEC'' (RealComponent ''OPT'' True (Finite 7)) (stringstream_of '' '') Map.empty =
     (None, \<lparr>buf = '' '', gpos = 1, eofbit = True, failbit = True\<rparr>,
      [''OPT'' \<mapsto> VReal (Finite 7)])"
    by (simp add: RealComponent_read_def add_def stream_defs)
  have s1: "SeparatorComponent_read ''SEC'' False ''NUMDOF'' (stringstream_of '' NUMDOF 3 '')
              Map.empty =
            (None, \<lparr>buf = ''  3 '', gpos = 1, eofbit = False, failbit = False\<rparr>, Map.empty)"
    by (simp add: SeparatorComponent_read_def stream_defs)
  have s2: "IntComponent_read ''SEC'' ''NUMDOF'' False 0
              \<lparr>buf = ''  3 '', gpos = 1, eofbit = False, failbit = False\<rparr> Map.empty =
            (None, \<lparr>buf = ''   '', gpos = 1, eofbit = False, failbit = False\<rparr>,
             [''NUMDOF'' \<mapsto> VInt 3])"
    by (simp add: IntComponent_read_def add_def stream_defs convert_defs)
  have s3: "IntComponent_read ''SEC'' ''OPT'' True 7
              \<lparr>buf = ''   '', gpos = 1, eofbit = False, failbit = False\<rparr>
              [''NUMDOF'' \<mapsto> VInt 3] =
            (Some (Std_out_of_range ''basic_string::erase''),
             \<lparr>buf = ''   '', gpos = 3, eofbit = True, failbit = True\<rparr>, [''NUMDOF'' \<mapsto> VInt 3])"
    by (simp add: IntComponent_read_def add_def stream_defs)
  show "read_all ''SEC''
       [SeparatorComponent False ''NUMDOF'' [], IntComponent ''NUMDOF'' False 0,
        IntComponent ''OPT'' True 7]
       (stringstream_of '' NUMDOF 3 '') Map.empty =
     (Some (Std_out_of_range ''basic_string::erase''),
      \<lparr>buf = ''   '', gpos = 3, eofbit = True, failbit = True\<rparr>, [''NUMDOF'' \<mapsto> VInt 3])"
    by (simp only: read.simps read_all.simps s1 s2 s3 prod.case option.case)
qed

text \<open>
  When no character at all is left (the stream is good and its position is the length of
  the text) both readers store the declared default and leave the stream as it is, whether
  the field is optional or not.
\<close>

lemma scalar_at_end_of_text:
  assumes "good condline" and "gpos condline = length (buf condline)"
  shows "read section_name (IntComponent name optional default_value) condline container =
           (None, condline, container(name \<mapsto> VInt default_value)) \<and>
         read section_name (RealComponent name optional real_default) condline container =
           (None, condline, container(name \<mapsto> VReal real_default))"
  using assms
  by (simp add: IntComponent_read_def RealComponent_read_def tellg_good size_t_of_int str_def
      add_def)

section \<open>Separators\<close>




section \<open>The position of the stream\<close>




section \<open>Selections\<close>

text \<open>
  Claim C3. For a \<^verbatim>\<open>SelectionComponent\<close> built by either constructor, \<^verbatim>\<open>read\<close>
  stores under the name of the field the value paired with the first label, in the order
  of declaration, that occurs somewhere in the text of the stream between two blanks,
  wherever in the line that is and whatever other labels occur before it in the line; when
  no label occurs, it stores the value paired with the default label. The value is the
  string or the integer at the index of the label in the list given to the constructor.
\<close>

theorem selection_stores_payload:
  assumes "new_SelectionComponent_string name dflt labels spayloads optional = Inr sel \<or>
           new_SelectionComponent_int name dflt labels ipayloads optional = Inr sel"
  shows "(i < length labels \<and> occurs_spaced (labels ! i) (buf condline) \<and>
          (\<forall>j<i. \<not> occurs_spaced (labels ! j) (buf condline)) \<longrightarrow>
            (\<exists>condline'. read section_name (SelectionComponent sel) condline container =
               (None, condline', container(name \<mapsto> payload sel i)))) \<and>
         ((\<forall>l\<in>set labels. \<not> occurs_spaced l (buf condline)) \<longrightarrow>
            (\<exists>condline'. read section_name (SelectionComponent sel) condline container =
               (None, condline', container(name \<mapsto> payload sel (find_index_of dflt labels))))) \<and>
         find_index_of dflt labels < length labels \<and>
         labels ! find_index_of dflt labels = dflt \<and>
         (new_SelectionComponent_string name dflt labels spayloads optional = Inr sel \<longrightarrow>
            (\<forall>n. payload sel n = VString (spayloads ! n))) \<and>
         (new_SelectionComponent_int name dflt labels ipayloads optional = Inr sel \<longrightarrow>
            (\<forall>n. payload sel n = VInt (ipayloads ! n)))"
proof -
  note f = new_SelectionComponent_fields [OF assms]
  have a: "i < length labels \<and> occurs_spaced (labels ! i) (buf condline) \<and>
          (\<forall>j<i. \<not> occurs_spaced (labels ! j) (buf condline)) \<longrightarrow>
            (\<exists>condline'. read section_name (SelectionComponent sel) condline container =
               (None, condline', container(name \<mapsto> payload sel i)))"
    using SelectionComponent_read_first_label [OF f(4), of i condline section_name container] f(1,3)
    by simp
  have b: "(\<forall>l\<in>set labels. \<not> occurs_spaced l (buf condline)) \<longrightarrow>
            (\<exists>condline'. read section_name (SelectionComponent sel) condline container =
               (None, condline', container(name \<mapsto> payload sel (find_index_of dflt labels))))"
    using SelectionComponent_read_no_label [OF f(4), of condline section_name container] f(1,2,3)
    by simp
  have c: "find_index_of dflt labels < length labels \<and> labels ! find_index_of dflt labels = dflt"
    using find_index_of_member [OF f(5)] by simp
  have d: "new_SelectionComponent_string name dflt labels spayloads optional = Inr sel \<longrightarrow>
            (\<forall>n. payload sel n = VString (spayloads ! n))"
    by (auto simp: new_SelectionComponent_string_def payload_def split: if_splits)
  have e: "new_SelectionComponent_int name dflt labels ipayloads optional = Inr sel \<longrightarrow>
            (\<forall>n. payload sel n = VInt (ipayloads ! n))"
    by (auto simp: new_SelectionComponent_int_def payload_def split: if_splits)
  show ?thesis using a b c d e by blast
qed

theorem selection_stores_payload_witness:
  "new_SelectionComponent_int ''TYPE'' ''Mod'' [''Std'', ''Mod''] [10, 20] False =
     Inr example_selection \<and>
   occurs_spaced ''Std'' (buf (stringstream_of '' x Mod y Std '')) \<and>
   (\<exists>condline'. read ''SEC'' (SelectionComponent example_selection)
        (stringstream_of '' x Mod y Std '') Map.empty =
      (None, condline', [''TYPE'' \<mapsto> VInt 10])) \<and>
   \<not> occurs_spaced ''Std'' (buf (stringstream_of '' x y '')) \<and>
   \<not> occurs_spaced ''Mod'' (buf (stringstream_of '' x y '')) \<and>
   (\<exists>condline'. read ''SEC'' (SelectionComponent example_selection)
        (stringstream_of '' x y '') Map.empty =
      (None, condline', [''TYPE'' \<mapsto> VInt 20]))"
proof -
  have c: "new_SelectionComponent_int ''TYPE'' ''Mod'' [''Std'', ''Mod''] [10, 20] False =
             Inr example_selection"
    by (simp add: new_SelectionComponent_int_def example_selection_def)
  have o1: "occurs_spaced ''Std'' (buf (stringstream_of '' x Mod y Std ''))"
    unfolding occurs_spaced_code by (simp add: stringstream_of_def)
  have o2: "\<not> occurs_spaced ''Std'' (buf (stringstream_of '' x y ''))"
    unfolding occurs_spaced_code by (simp add: stringstream_of_def)
  have o3: "\<not> occurs_spaced ''Mod'' (buf (stringstream_of '' x y ''))"
    unfolding occurs_spaced_code by (simp add: stringstream_of_def)
  have p: "payload example_selection 0 = VInt 10" "payload example_selection 1 = VInt 20"
    by (simp_all add: payload_def example_selection_def)
  have fi: "find_index_of ''Mod'' [''Std'', ''Mod''] = 1"
    by simp
  note t = selection_stores_payload [where name = "''TYPE''" and dflt = "''Mod''"
      and labels = "[''Std'', ''Mod'']" and ipayloads = "[10, 20]" and optional = False
      and sel = example_selection and spayloads = "[]" and section_name = "''SEC''"
      and container = Map.empty, OF disjI2, OF c]
  have r1: "\<exists>condline'. read ''SEC'' (SelectionComponent example_selection)
        (stringstream_of '' x Mod y Std '') Map.empty =
      (None, condline', [''TYPE'' \<mapsto> VInt 10])"
    using t [where i = 0 and condline = "stringstream_of '' x Mod y Std ''"] o1 p by simp
  have r2: "\<exists>condline'. read ''SEC'' (SelectionComponent example_selection)
        (stringstream_of '' x y '') Map.empty =
      (None, condline', [''TYPE'' \<mapsto> VInt 20])"
    using t [where i = 0 and condline = "stringstream_of '' x y ''"] o2 o3 p fi by simp
  show ?thesis using c o1 o2 o3 r1 r2 by blast
qed

section \<open>Labels need a blank on both sides\<close>

text \<open>
  Claim C10. For a selection the code does not leave an unmatched label alone. The text
  \<^verbatim>\<open>Std 3 \<close> starts with the label \<^verbatim>\<open>Std\<close>, which has no blank before it, so
  \<^verbatim>\<open>find\<close> meets neither label and the loop ends with \<open>position = npos\<close>. The
  statements after the loop are not guarded (a separator tests for \<open>npos\<close>, the selection
  does not): \<open>position++\<close> wraps to \<open>0\<close> and \<^verbatim>\<open>erase(0, n)\<close> removes the first
  \<open>n\<close> characters of the text, \<open>n\<close> the length of the default label. With the default
  \<^verbatim>\<open>Std\<close> the outcome is that of consuming the label: it is gone from the text and its
  value is stored. With another default of three letters the label is removed as well, and
  from the text \<^verbatim>\<open>NUMDOF 3 \<close> the first three letters of another word are.
\<close>

theorem selection_consumes_unspaced_label:
  "new_SelectionComponent_int ''TYPE'' ''Std'' [''Std'', ''Mod''] [10, 20] False =
     Inr \<lparr>sel_name = ''TYPE'', defaultvalue = ''Std'', datfilevalues = [''Std'', ''Mod''],
          stringcondvalues = [''notdefined''], intcondvalues = [10, 20],
          stringtostring = False\<rparr> \<and>
   str_find ''Std 3 '' '' Std '' = None \<and> str_find ''Std 3 '' '' Mod '' = None \<and>
   read ''SEC''
       (SelectionComponent
          \<lparr>sel_name = ''TYPE'', defaultvalue = ''Std'', datfilevalues = [''Std'', ''Mod''],
           stringcondvalues = [''notdefined''], intcondvalues = [10, 20],
           stringtostring = False\<rparr>)
       (stringstream_of ''Std 3 '') Map.empty =
     (None, \<lparr>buf = '' 3 '', gpos = 0, eofbit = False, failbit = False\<rparr>,
      [''TYPE'' \<mapsto> VInt 10]) \<and>
   read ''SEC'' (SelectionComponent example_selection) (stringstream_of ''Std 3 '') Map.empty =
     (None, \<lparr>buf = '' 3 '', gpos = 0, eofbit = False, failbit = False\<rparr>,
      [''TYPE'' \<mapsto> VInt 20]) \<and>
   read ''SEC'' (SelectionComponent example_selection) (stringstream_of ''NUMDOF 3 '') Map.empty =
     (None, \<lparr>buf = ''DOF 3 '', gpos = 0, eofbit = False, failbit = False\<rparr>,
      [''TYPE'' \<mapsto> VInt 20])"
  by (simp add: new_SelectionComponent_int_def SelectionComponent_read_def example_selection_def
      array_at_def add_def stream_defs)

text \<open>
  The search itself is as the claim says: \<^verbatim>\<open>find\<close> meets a label exactly when the
  text holds it with a blank right before and a blank right after it. A separator that is
  not found moves to the end of the text when optional and throws when mandatory; a
  selection none of whose labels is found stores the value of its default label, and
  removes as many characters from the start of the text as that label is long.
\<close>

lemma label_found_iff_spaced:
  "((\<exists>p. str_find (str condline) ('' '' @ label @ '' '') = Some p) \<longleftrightarrow>
      occurs_spaced label (buf condline)) \<and>
   (\<not> occurs_spaced label (buf condline) \<longrightarrow>
      read section_name (SeparatorComponent optional label description) condline container =
        (if optional then (None, seekg_end condline, container)
         else (Some (Four_C_Throw
                 ''Required parameter '%s' for section '%s' not specified in input file!''
                 [Str label, Str section_name]), condline, container))) \<and>
   (constructed_selection sel \<and>
    (\<forall>l\<in>set (datfilevalues sel). \<not> occurs_spaced l (buf condline)) \<longrightarrow>
      read section_name (SelectionComponent sel) condline container =
        (None, seekg 0 (set_str (drop (length (defaultvalue sel)) (buf condline)) condline),
         container(sel_name sel \<mapsto>
           payload sel (find_index_of (defaultvalue sel) (datfilevalues sel)))))"
proof (intro conjI impI)
  show "(\<exists>p. str_find (str condline) ('' '' @ label @ '' '') = Some p) \<longleftrightarrow>
          occurs_spaced label (buf condline)"
    using str_find_found_iff [of "buf condline" label] by (simp add: str_def)
next
  assume "\<not> occurs_spaced label (buf condline)"
  then have "str_find (buf condline) ('' '' @ label @ '' '') = None"
    using str_find_None_iff by blast
  from SeparatorComponent_read_not_found [OF this, of section_name optional container]
  show "read section_name (SeparatorComponent optional label description) condline container =
        (if optional then (None, seekg_end condline, container)
         else (Some (Four_C_Throw
                 ''Required parameter '%s' for section '%s' not specified in input file!''
                 [Str label, Str section_name]), condline, container))"
    by simp
next
  assume a: "constructed_selection sel \<and>
    (\<forall>l\<in>set (datfilevalues sel). \<not> occurs_spaced l (buf condline))"
  then show "read section_name (SelectionComponent sel) condline container =
        (None, seekg 0 (set_str (drop (length (defaultvalue sel)) (buf condline)) condline),
         container(sel_name sel \<mapsto>
           payload sel (find_index_of (defaultvalue sel) (datfilevalues sel))))"
    using SelectionComponent_read_no_label [of sel condline section_name container] by simp
qed

section \<open>Booleans\<close>

text \<open>
  Claim C6, as stated, fails: the token \<^verbatim>\<open>yEs\<close>, a case variant of \<^verbatim>\<open>Yes\<close>, is
  refused. \<^verbatim>\<open>BoolComponent::read\<close> compares the token with twelve spellings and not
  without regard to case.
\<close>

theorem bool_case_variant_counterexample:
  "read ''SEC'' (BoolComponent ''FLAG'' False False) (stringstream_of ''yEs '') Map.empty =
     (Some (Four_C_Throw
        ''Value of parameter '%s' for section '%s' not properly specified in input file!''
        [Str ''FLAG'', Str ''SEC'']),
      \<lparr>buf = ''yEs '', gpos = 3, eofbit = False, failbit = False\<rparr>, Map.empty)"
  by (simp add: BoolComponent_read_def stream_defs)

text \<open>
  Claim C6, amended. On a good stream whose next token is followed by whitespace,
  \<^verbatim>\<open>BoolComponent::read\<close> extracts the token and removes it from the text; the tokens
  \<^verbatim>\<open>Yes\<close>, \<^verbatim>\<open>YES\<close>, \<^verbatim>\<open>yes\<close>, \<^verbatim>\<open>True\<close>, \<^verbatim>\<open>TRUE\<close>, \<^verbatim>\<open>true\<close> store
  true, the tokens \<^verbatim>\<open>No\<close>, \<^verbatim>\<open>NO\<close>, \<^verbatim>\<open>no\<close>, \<^verbatim>\<open>False\<close>, \<^verbatim>\<open>FALSE\<close>,
  \<^verbatim>\<open>false\<close> store false, and every other token, other case variants included, throws
  ``Value of parameter ... not properly specified in input file!''. On a good stream whose
  position is the end of the text the declared default is stored.
\<close>

theorem bool_read:
  "(next_token condline pre ws tok rest \<longrightarrow>
      read section_name (BoolComponent name optional dflt) condline container =
        (if tok \<in> set [''Yes'', ''YES'', ''yes'', ''True'', ''TRUE'', ''true''] then
           (None, condline\<lparr>buf := pre @ ws @ rest\<rparr>, container(name \<mapsto> VBool True))
         else if tok \<in> set [''No'', ''NO'', ''no'', ''False'', ''FALSE'', ''false''] then
           (None, condline\<lparr>buf := pre @ ws @ rest\<rparr>, container(name \<mapsto> VBool False))
         else
           (Some (Four_C_Throw
              ''Value of parameter '%s' for section '%s' not properly specified in input file!''
              [Str name, Str section_name]),
            condline\<lparr>gpos := length pre + length ws + length tok\<rparr>, container))) \<and>
   (good condline \<and> gpos condline = length (buf condline) \<longrightarrow>
      read section_name (BoolComponent name optional dflt) condline container =
        (None, condline, container(name \<mapsto> VBool dflt)))"
proof (intro conjI impI)
  assume "next_token condline pre ws tok rest"
  from BoolComponent_read_token [OF this, of section_name name dflt container]
  show "read section_name (BoolComponent name optional dflt) condline container =
        (if tok \<in> set [''Yes'', ''YES'', ''yes'', ''True'', ''TRUE'', ''true''] then
           (None, condline\<lparr>buf := pre @ ws @ rest\<rparr>, container(name \<mapsto> VBool True))
         else if tok \<in> set [''No'', ''NO'', ''no'', ''False'', ''FALSE'', ''false''] then
           (None, condline\<lparr>buf := pre @ ws @ rest\<rparr>, container(name \<mapsto> VBool False))
         else
           (Some (Four_C_Throw
              ''Value of parameter '%s' for section '%s' not properly specified in input file!''
              [Str name, Str section_name]),
            condline\<lparr>gpos := length pre + length ws + length tok\<rparr>, container))"
    by (simp only: read.simps)
next
  assume "good condline \<and> gpos condline = length (buf condline)"
  then show "read section_name (BoolComponent name optional dflt) condline container =
        (None, condline, container(name \<mapsto> VBool dflt))"
    by (simp add: BoolComponent_read_def tellg_good size_t_of_int str_def add_def)
qed

theorem bool_read_witness:
  "next_token (stringstream_of '' YES 1 '') [] '' '' ''YES'' '' 1 '' \<and>
   read ''SEC'' (BoolComponent ''FLAG'' False False) (stringstream_of '' YES 1 '') Map.empty =
     (None, stringstream_of ''  1 '', [''FLAG'' \<mapsto> VBool True]) \<and>
   next_token (stringstream_of ''no '') [] [] ''no'' '' '' \<and>
   read ''SEC'' (BoolComponent ''FLAG'' False True) (stringstream_of ''no '') Map.empty =
     (None, stringstream_of '' '', [''FLAG'' \<mapsto> VBool False]) \<and>
   next_token (stringstream_of ''maybe '') [] [] ''maybe'' '' '' \<and>
   read ''SEC'' (BoolComponent ''FLAG'' False False) (stringstream_of ''maybe '') Map.empty =
     (Some (Four_C_Throw
        ''Value of parameter '%s' for section '%s' not properly specified in input file!''
        [Str ''FLAG'', Str ''SEC'']),
      \<lparr>buf = ''maybe '', gpos = 5, eofbit = False, failbit = False\<rparr>, Map.empty) \<and>
   good (seekg_end (stringstream_of ''  '')) \<and>
   gpos (seekg_end (stringstream_of ''  '')) = length (buf (seekg_end (stringstream_of ''  ''))) \<and>
   read ''SEC'' (BoolComponent ''FLAG'' True True) (seekg_end (stringstream_of ''  '')) Map.empty =
     (None, seekg_end (stringstream_of ''  ''), [''FLAG'' \<mapsto> VBool True])"
proof -
  have n1: "next_token (stringstream_of '' YES 1 '') [] '' '' ''YES'' '' 1 ''"
    by (simp add: next_token_def stringstream_of_def good_def isspace_def)
  have n2: "next_token (stringstream_of ''no '') [] [] ''no'' '' ''"
    by (simp add: next_token_def stringstream_of_def good_def isspace_def)
  have n3: "next_token (stringstream_of ''maybe '') [] [] ''maybe'' '' ''"
    by (simp add: next_token_def stringstream_of_def good_def isspace_def)
  have g: "good (seekg_end (stringstream_of ''  ''))"
    by (simp add: good_def seekg_end_def stringstream_of_def)
  have p: "gpos (seekg_end (stringstream_of ''  '')) =
           length (buf (seekg_end (stringstream_of ''  '')))"
    by (simp add: seekg_end_def stringstream_of_def)
  have r1: "read ''SEC'' (BoolComponent ''FLAG'' False False) (stringstream_of '' YES 1 '')
              Map.empty = (None, stringstream_of ''  1 '', [''FLAG'' \<mapsto> VBool True])"
    using n1 bool_read [of "stringstream_of '' YES 1 ''" "[]" "'' ''" "''YES''" "'' 1 ''" "''SEC''"
        "''FLAG''" False False Map.empty]
    by (simp add: stringstream_of_def)
  have r2: "read ''SEC'' (BoolComponent ''FLAG'' False True) (stringstream_of ''no '') Map.empty =
              (None, stringstream_of '' '', [''FLAG'' \<mapsto> VBool False])"
    using n2 bool_read [of "stringstream_of ''no ''" "[]" "[]" "''no''" "'' ''" "''SEC''"
        "''FLAG''" False True Map.empty]
    by (simp add: stringstream_of_def)
  have r3: "read ''SEC'' (BoolComponent ''FLAG'' False False) (stringstream_of ''maybe '')
              Map.empty =
     (Some (Four_C_Throw
        ''Value of parameter '%s' for section '%s' not properly specified in input file!''
        [Str ''FLAG'', Str ''SEC'']),
      \<lparr>buf = ''maybe '', gpos = 5, eofbit = False, failbit = False\<rparr>, Map.empty)"
    using n3 bool_read [of "stringstream_of ''maybe ''" "[]" "[]" "''maybe''" "'' ''" "''SEC''"
        "''FLAG''" False False Map.empty]
    by (simp add: stringstream_of_def)
  have r4: "read ''SEC'' (BoolComponent ''FLAG'' True True) (seekg_end (stringstream_of ''  ''))
              Map.empty = (None, seekg_end (stringstream_of ''  ''), [''FLAG'' \<mapsto> VBool True])"
    using g p bool_read [of "seekg_end (stringstream_of ''  '')" "[]" "[]" "[]" "[]" "''SEC''"
        "''FLAG''" True True Map.empty]
    by simp
  show ?thesis using n1 n2 n3 g p r1 r2 r3 r4 by blast
qed

section \<open>The stoichiometry example\<close>

text \<open>
  Claim C1, as stated, fails: in the text \<^verbatim>\<open>NUMSCAL 3 STOICHIOMETRIES 1 -1 0\<close> no
  blank stands before the first label, so the first separator is not found and the read
  of the mandatory separator throws.
\<close>

theorem numscal_line_counterexample:
  "read_all ''SEC'' scatra_fields (stringstream_of ''NUMSCAL 3 STOICHIOMETRIES 1 -1 0'') Map.empty =
     (Some (Four_C_Throw
        ''Required parameter '%s' for section '%s' not specified in input file!''
        [Str ''NUMSCAL'', Str ''SEC'']),
      stringstream_of ''NUMSCAL 3 STOICHIOMETRIES 1 -1 0'', Map.empty)"
  by (simp add: scatra_fields_def SeparatorComponent_read_def stream_defs)

text \<open>
  Claim C1, amended. With a blank before the first label and a blank after the last token,
  that is for the text \<^verbatim>\<open> NUMSCAL 3 STOICHIOMETRIES 1 -1 0 \<close>, the four reads succeed
  in order, and the container then maps \<^verbatim>\<open>NUMSCAL\<close> to the integer 3 and
  \<^verbatim>\<open>STOICHIOMETRIES\<close> to the integers 1, -1, 0 and nothing else; the length 3 of the
  vector is the entry \<^verbatim>\<open>NUMSCAL\<close> read just before.
\<close>

theorem numscal_line_framed:
  "read_all ''SEC'' scatra_fields (stringstream_of '' NUMSCAL 3 STOICHIOMETRIES 1 -1 0 '')
       Map.empty =
     (None, \<lparr>buf = ''       '', gpos = 3, eofbit = False, failbit = False\<rparr>,
      [''NUMSCAL'' \<mapsto> VInt 3, ''STOICHIOMETRIES'' \<mapsto> VIntVector [1, - 1, 0]])"
proof -
  have s1: "SeparatorComponent_read ''SEC'' False ''NUMSCAL''
              (stringstream_of '' NUMSCAL 3 STOICHIOMETRIES 1 -1 0 '') Map.empty =
            (None, \<lparr>buf = ''  3 STOICHIOMETRIES 1 -1 0 '', gpos = 1, eofbit = False,
                    failbit = False\<rparr>, Map.empty)"
    by (simp add: SeparatorComponent_read_def stream_defs)
  have s2: "IntComponent_read ''SEC'' ''NUMSCAL'' False 0
              \<lparr>buf = ''  3 STOICHIOMETRIES 1 -1 0 '', gpos = 1, eofbit = False, failbit = False\<rparr>
              Map.empty =
            (None, \<lparr>buf = ''   STOICHIOMETRIES 1 -1 0 '', gpos = 1, eofbit = False,
                    failbit = False\<rparr>, [''NUMSCAL'' \<mapsto> VInt 3])"
    by (simp add: IntComponent_read_def add_def stream_defs convert_defs)
  have s3: "SeparatorComponent_read ''SEC'' False ''STOICHIOMETRIES''
              \<lparr>buf = ''   STOICHIOMETRIES 1 -1 0 '', gpos = 1, eofbit = False, failbit = False\<rparr>
              [''NUMSCAL'' \<mapsto> VInt 3] =
            (None, \<lparr>buf = ''    1 -1 0 '', gpos = 3, eofbit = False, failbit = False\<rparr>,
             [''NUMSCAL'' \<mapsto> VInt 3])"
    by (simp add: SeparatorComponent_read_def stream_defs)
  define conv where
    "conv = (\<lambda>snumber. convert_and_validate_int snumber ''STOICHIOMETRIES'' ''SEC'' 3 False)"
  have cv: "conv ''1'' = Inr 1" "conv ''-1'' = Inr (- 1)" "conv ''0'' = Inr 0"
    by (simp_all add: conv_def convert_defs)
  have vl: "vector_loop conv False 3 [0, 0, 0]
              \<lparr>buf = ''    1 -1 0 '', gpos = 3, eofbit = False, failbit = False\<rparr> =
            (None, \<lparr>buf = ''       '', gpos = 3, eofbit = False, failbit = False\<rparr>, [1, - 1, 0])"
    by (simp add: cv stream_defs)
  have nv: "new_vector 3 (0::int) = Inr [0, 0, 0]"
    by (simp add: new_vector_def numeral_3_eq_3)
  have lv: "LengthVisitor [''NUMSCAL'' \<mapsto> VInt 3] (LengthFromInt ''NUMSCAL'') = Inr 3"
    by (simp add: LengthVisitor_def LengthFromInt_def get_int_def)
  have tg: "tellg \<lparr>buf = ''    1 -1 0 '', gpos = 3, eofbit = False, failbit = False\<rparr> =
            (3, \<lparr>buf = ''    1 -1 0 '', gpos = 3, eofbit = False, failbit = False\<rparr>)"
    by (simp add: tellg_def good_def)
  have s4: "IntVectorComponent_read ''SEC'' ''STOICHIOMETRIES'' False (LengthFromInt ''NUMSCAL'') 0
              \<lparr>buf = ''    1 -1 0 '', gpos = 3, eofbit = False, failbit = False\<rparr>
              [''NUMSCAL'' \<mapsto> VInt 3] =
            (None, \<lparr>buf = ''       '', gpos = 3, eofbit = False, failbit = False\<rparr>,
             [''NUMSCAL'' \<mapsto> VInt 3, ''STOICHIOMETRIES'' \<mapsto> VIntVector [1, - 1, 0]])"
    unfolding IntVectorComponent_read_def lv sum.case nv tg Let_def case_prod_conv
      vl [unfolded conv_def]
    by (simp add: add_def size_t_of_def str_def)
  show ?thesis
    unfolding scatra_fields_def new_IntVectorComponent_from_def
    by (simp only: read.simps read_all.simps s1 s2 s3 s4 prod.case option.case)
qed

section \<open>Switches\<close>

text \<open>
  Claim C8. The code does not do this for the default key when the line does not name it.
  The switch of the example has the keys 1 (label \<^verbatim>\<open>Std\<close>, one integer \<^verbatim>\<open>A\<close>) and 2,
  and 1 is its default. On the text \<^verbatim>\<open> 12 \<close> its selection finds no label and stores
  the key 1, and the token \<^verbatim>\<open>12\<close> is a valid value for \<^verbatim>\<open>A\<close>; but the statements of
  \<^verbatim>\<open>SelectionComponent::read\<close> after the loop, which are not guarded by a test for
  \<open>npos\<close>, remove the first three characters of the text, as many as the default label is
  long, and the read of \<^verbatim>\<open>A\<close> throws for want of a value. On the text \<^verbatim>\<open> 4 \<close> the
  whole text is removed and \<^verbatim>\<open>A\<close> gets its default 0 instead of 4. When the line names
  the key, as in \<^verbatim>\<open> Std 12 \<close>, the read does what the claim says.
\<close>

theorem switch_default_key_loses_tokens:
  "new_SwitchComponent ''TYPE'' 1 example_choices = Inr example_switch \<and>
   read ''SEC'' example_switch (stringstream_of '' 12 '') Map.empty =
     (Some (Four_C_Throw
        (''Invalid argument! No value of variable '%s' in '%s' specified. Possibly you '' @
         ''didn't give enough input values. The variable '%s' expects %i input values.'')
        [Str ''A'', Str ''SEC'', Str ''A'', Dec 1]),
      \<lparr>buf = '' '', gpos = 1, eofbit = True, failbit = True\<rparr>, [''TYPE'' \<mapsto> VInt 1]) \<and>
   read ''SEC'' example_switch (stringstream_of '' 4 '') Map.empty =
     (None, \<lparr>buf = [], gpos = 0, eofbit = False, failbit = False\<rparr>,
      [''TYPE'' \<mapsto> VInt 1, ''A'' \<mapsto> VInt 0]) \<and>
   read ''SEC'' example_switch (stringstream_of '' Std 12 '') Map.empty =
     (None, \<lparr>buf = ''   '', gpos = 1, eofbit = False, failbit = False\<rparr>,
      [''TYPE'' \<mapsto> VInt 1, ''A'' \<mapsto> VInt 12])"
proof -
  have w: "new_SwitchComponent ''TYPE'' 1 example_choices = Inr example_switch"
    by (simp add: new_SwitchComponent_def new_SelectionComponent_int_def example_choices_def
        example_switch_def Let_def)
  have g: "get_int [''TYPE'' \<mapsto> VInt 1] ''TYPE'' = Inr 1"
    by (simp add: get_int_def)
  have m: "map_of example_choices 1 = Some (''Std'', [IntComponent ''A'' False 0])"
    by (simp add: example_choices_def)
  have a1: "SelectionComponent_read ''SEC''
              \<lparr>sel_name = ''TYPE'', defaultvalue = ''Std'', datfilevalues = [''Std'', ''Mod''],
               stringcondvalues = [''notdefined''], intcondvalues = [1, 2],
               stringtostring = False\<rparr>
              (stringstream_of '' 12 '') Map.empty =
            (None, \<lparr>buf = '' '', gpos = 0, eofbit = False, failbit = False\<rparr>,
             [''TYPE'' \<mapsto> VInt 1])"
    by (simp add: SelectionComponent_read_def array_at_def add_def stream_defs)
  have a2: "IntComponent_read ''SEC'' ''A'' False 0
              \<lparr>buf = '' '', gpos = 0, eofbit = False, failbit = False\<rparr>
              [''TYPE'' \<mapsto> VInt 1] =
            (Some (Four_C_Throw
               (''Invalid argument! No value of variable '%s' in '%s' specified. Possibly you '' @
                ''didn't give enough input values. The variable '%s' expects %i input values.'')
               [Str ''A'', Str ''SEC'', Str ''A'', Dec 1]),
             \<lparr>buf = '' '', gpos = 1, eofbit = True, failbit = True\<rparr>, [''TYPE'' \<mapsto> VInt 1])"
    by (simp add: IntComponent_read_def add_def stream_defs convert_defs)
  have b1: "SelectionComponent_read ''SEC''
              \<lparr>sel_name = ''TYPE'', defaultvalue = ''Std'', datfilevalues = [''Std'', ''Mod''],
               stringcondvalues = [''notdefined''], intcondvalues = [1, 2],
               stringtostring = False\<rparr>
              (stringstream_of '' 4 '') Map.empty =
            (None, \<lparr>buf = [], gpos = 0, eofbit = False, failbit = False\<rparr>,
             [''TYPE'' \<mapsto> VInt 1])"
    by (simp add: SelectionComponent_read_def array_at_def add_def stream_defs)
  have b2: "IntComponent_read ''SEC'' ''A'' False 0
              \<lparr>buf = [], gpos = 0, eofbit = False, failbit = False\<rparr>
              [''TYPE'' \<mapsto> VInt 1] =
            (None, \<lparr>buf = [], gpos = 0, eofbit = False, failbit = False\<rparr>,
             [''TYPE'' \<mapsto> VInt 1, ''A'' \<mapsto> VInt 0])"
    by (simp add: IntComponent_read_def add_def stream_defs)
  have c1: "SelectionComponent_read ''SEC''
              \<lparr>sel_name = ''TYPE'', defaultvalue = ''Std'', datfilevalues = [''Std'', ''Mod''],
               stringcondvalues = [''notdefined''], intcondvalues = [1, 2],
               stringtostring = False\<rparr>
              (stringstream_of '' Std 12 '') Map.empty =
            (None, \<lparr>buf = ''  12 '', gpos = 1, eofbit = False, failbit = False\<rparr>,
             [''TYPE'' \<mapsto> VInt 1])"
    by (simp add: SelectionComponent_read_def array_at_def add_def stream_defs)
  have c2: "IntComponent_read ''SEC'' ''A'' False 0
              \<lparr>buf = ''  12 '', gpos = 1, eofbit = False, failbit = False\<rparr>
              [''TYPE'' \<mapsto> VInt 1] =
            (None, \<lparr>buf = ''   '', gpos = 1, eofbit = False, failbit = False\<rparr>,
             [''TYPE'' \<mapsto> VInt 1, ''A'' \<mapsto> VInt 12])"
    by (simp add: IntComponent_read_def add_def stream_defs convert_defs)
  have r1: "read ''SEC'' example_switch (stringstream_of '' 12 '') Map.empty =
     (Some (Four_C_Throw
        (''Invalid argument! No value of variable '%s' in '%s' specified. Possibly you '' @
         ''didn't give enough input values. The variable '%s' expects %i input values.'')
        [Str ''A'', Str ''SEC'', Str ''A'', Dec 1]),
      \<lparr>buf = '' '', gpos = 1, eofbit = True, failbit = True\<rparr>, [''TYPE'' \<mapsto> VInt 1])"
    unfolding example_switch_def
    by (simp only: read.simps read_all.simps a1 a2 g m prod.case option.case sum.case
        selection.simps snd_conv)
  have r2: "read ''SEC'' example_switch (stringstream_of '' 4 '') Map.empty =
     (None, \<lparr>buf = [], gpos = 0, eofbit = False, failbit = False\<rparr>,
      [''TYPE'' \<mapsto> VInt 1, ''A'' \<mapsto> VInt 0])"
    unfolding example_switch_def
    by (simp only: read.simps read_all.simps b1 b2 g m prod.case option.case sum.case
        selection.simps snd_conv)
  have r3: "read ''SEC'' example_switch (stringstream_of '' Std 12 '') Map.empty =
     (None, \<lparr>buf = ''   '', gpos = 1, eofbit = False, failbit = False\<rparr>,
      [''TYPE'' \<mapsto> VInt 1, ''A'' \<mapsto> VInt 12])"
    unfolding example_switch_def
    by (simp only: read.simps read_all.simps c1 c2 g m prod.case option.case sum.case
        selection.simps snd_conv)
  show ?thesis using w r1 r2 r3 by blast
qed

text \<open>
  What holds for every switch built by its constructor: the selection it owns succeeds
  and stores an integer key under the name of the switch; that key is a key of the choices,
  so the check for an internal error never fails; and the read of the switch is then the
  read, in declared order, of the components of that key from the stream and into the
  container that the selection left. When it succeeds (no \<^verbatim>\<open>ProcessedComponent\<close> being
  among them) the container holds the name of the switch and the name of every component of
  that key that stores a value.
\<close>

lemma switch_reads_choice_of_stored_key:
  assumes "new_SwitchComponent name default_key choices = Inr sw"
  shows "\<exists>choices' component_for_key key label components condline1.
           sw = SwitchComponent name default_key choices' component_for_key \<and>
           SelectionComponent_read section_name component_for_key condline container =
             (None, condline1, container(name \<mapsto> VInt key)) \<and>
           (key, label, components) \<in> set choices \<and>
           map_of choices' key = Some (label, components) \<and>
           read section_name sw condline container =
             read_all section_name components condline1 (container(name \<mapsto> VInt key)) \<and>
           (list_all no_processed components \<longrightarrow>
              (\<forall>condline' container'.
                 read section_name sw condline container = (None, condline', container') \<longrightarrow>
                 name \<in> dom container' \<and>
                 (\<forall>c\<in>set components. \<forall>n. stores_under c = Some n \<longrightarrow> n \<in> dom container')))"
proof -
  from new_SwitchComponent_D [OF assms]
  obtain cfk choices' where sw: "sw = SwitchComponent name default_key choices' cfk"
    and cs: "constructed_selection cfk" and nm: "sel_name cfk = name"
    and len: "length (datfilevalues cfk) = length choices"
    and pl: "\<And>i. payload cfk i = VInt (map fst choices ! i)"
    and mo: "\<And>key. map_of choices key \<noteq> None \<Longrightarrow> map_of choices' key = map_of choices key"
    by blast
  from SelectionComponent_read_constructed [OF cs, of section_name condline container]
  obtain c1 i where i: "i < length choices"
    and sel: "SelectionComponent_read section_name cfk condline container =
                (None, c1, container(name \<mapsto> VInt (map fst choices ! i)))"
    using len nm pl by auto
  define key where "key = map fst choices ! i"
  have "key \<in> fst ` set choices"
    using i by (simp add: key_def)
  then obtain choice where mc: "map_of choices key = Some choice"
    by (metis domD dom_map_of_conv_image_fst)
  obtain label components where ch: "choice = (label, components)"
    by (cases choice)
  have mem: "(key, label, components) \<in> set choices"
    using mc ch by (auto dest: map_of_SomeD)
  have mc': "map_of choices' key = Some (label, components)"
    using mo [of key] mc ch by simp
  have sel': "SelectionComponent_read section_name cfk condline container =
                (None, c1, container(name \<mapsto> VInt key))"
    using sel by (simp add: key_def)
  have rd: "read section_name sw condline container =
              read_all section_name components c1 (container(name \<mapsto> VInt key))"
    using sw sel' nm mc' by (simp add: get_int_def)
  have dm: "list_all no_processed components \<longrightarrow>
              (\<forall>condline' container'.
                 read section_name sw condline container = (None, condline', container') \<longrightarrow>
                 name \<in> dom container' \<and>
                 (\<forall>c\<in>set components. \<forall>n. stores_under c = Some n \<longrightarrow> n \<in> dom container'))"
  proof (intro impI allI)
    fix condline' container'
    assume np: "list_all no_processed components"
      and r: "read section_name sw condline container = (None, condline', container')"
    have ra: "read_all section_name components c1 (container(name \<mapsto> VInt key)) =
                (None, condline', container')"
      using r rd by simp
    from read_dom(2) [OF np ra]
    show "name \<in> dom container' \<and>
          (\<forall>c\<in>set components. \<forall>n. stores_under c = Some n \<longrightarrow> n \<in> dom container')"
      by auto
  qed
  show ?thesis
    using sw sel' mem mc' rd dm by blast
qed

section \<open>Default lines read back\<close>




end
